theory Spec2Isabelle
  imports Main "HOL-Library.Multiset"
begin

section \<open>Python values of \<^verbatim>\<open>loto.py\<close>\<close>

text \<open>
  Exceptions are values. Every exception class listed here derives from Python's
  \<^verbatim>\<open>Exception\<close>, so an \<^verbatim>\<open>except Exception\<close> clause catches each of them.
\<close>

datatype py_error =
    ValueError
  | TypeError
  | KeyError
  | NotImplementedError
  | FileNotFoundError
  | UnicodeDecodeError
  | CsvError

text \<open>
  \<^verbatim>\<open>datetime.strptime\<close> with the three patterns of \<^verbatim>\<open>find_date_format\<close> yields a
  midnight timestamp; only the calendar fields are kept.
\<close>

record datetime =
  year :: nat
  month :: nat
  day :: nat

text \<open>\<^verbatim>\<open>class LotoResult(NamedTuple)\<close>: grid, chance and an optional date.\<close>

record LotoResult =
  grid :: "int list"
  chance :: "int list"
  date :: "datetime option"

text \<open>
  The right operand of \<^verbatim>\<open>==\<close> is any Python object: either an instance of
  \<^verbatim>\<open>LotoResult\<close> or a value of another type (\<^verbatim>\<open>None\<close>, an integer, a string,
  a list of such values).
\<close>

datatype py_other = PyNone | PyInt int | PyStr string | PyList "py_other list"

datatype py_object = IsLotoResult LotoResult | NotLotoResult py_other

subsection \<open>\<^verbatim>\<open>LotoResult.__eq__\<close> and \<^verbatim>\<open>LotoResult.__ne__\<close>\<close>

definition LotoResult_eq :: "LotoResult \<Rightarrow> py_object \<Rightarrow> py_error + bool" where
  "LotoResult_eq self other =
     (case other of
        NotLotoResult x \<Rightarrow> Inl NotImplementedError
      | IsLotoResult b \<Rightarrow>
          if length (grid self) = length (grid b)
          then Inr (sort (grid self) = sort (grid b))
          else if length (grid self) < length (grid b)
          then Inr (list_all (\<lambda>i. i \<in> set (grid b)) (grid self))
          else Inr (list_all (\<lambda>i. i \<in> set (grid self)) (grid b)))"

definition LotoResult_ne :: "LotoResult \<Rightarrow> py_object \<Rightarrow> py_error + bool" where
  "LotoResult_ne self other =
     (case other of
        NotLotoResult x \<Rightarrow> Inl NotImplementedError
      | IsLotoResult b \<Rightarrow>
          (case LotoResult_eq self other of
             Inl e \<Rightarrow> Inl e
           | Inr r \<Rightarrow> Inr (\<not> r)))"

text \<open>
  \<^verbatim>\<open>a == b\<close> for two results, where the \<^verbatim>\<open>isinstance\<close> guard passes: the value
  that \<^verbatim>\<open>__eq__\<close> returns.
\<close>

definition loto_eq :: "LotoResult \<Rightarrow> LotoResult \<Rightarrow> bool" where
  "loto_eq a b =
     (if length (grid a) = length (grid b)
      then sort (grid a) = sort (grid b)
      else if length (grid a) < length (grid b)
      then list_all (\<lambda>i. i \<in> set (grid b)) (grid a)
      else list_all (\<lambda>i. i \<in> set (grid a)) (grid b))"

section \<open>Strings\<close>

text \<open>
  Python strings are lists of characters. The operations below are the ones the
  program applies: \<^verbatim>\<open>str(i)\<close> and \<^verbatim>\<open>int(s)\<close> for integers, \<^verbatim>\<open>s.split(sep)\<close>
  and \<^verbatim>\<open>s.partition(sep)\<close> with a separator of one character, \<^verbatim>\<open>sep.join(xs)\<close>
  and \<^verbatim>\<open>s.startswith(p)\<close>. A character is a code point below 256. Code points
  beyond (other decimal digits, other white space) and the interpreter's limit on the
  number of digits of a conversion are left out of \<^verbatim>\<open>int\<close> and \<^verbatim>\<open>str\<close>.
\<close>

definition digit_char :: "nat \<Rightarrow> char" where
  "digit_char d = char_of (48 + d)"

definition is_digit :: "char \<Rightarrow> bool" where
  "is_digit c \<longleftrightarrow> (48::nat) \<le> of_char c \<and> of_char c \<le> (57::nat)"

definition digit_val :: "char \<Rightarrow> nat" where
  "digit_val c = of_char c - 48"

fun digits_of :: "nat \<Rightarrow> string" where
  "digits_of n =
     (if n < 10 then [digit_char n] else digits_of (n div 10) @ [digit_char (n mod 10)])"

declare digits_of.simps [simp del]

text \<open>\<^verbatim>\<open>str(i)\<close> for an integer.\<close>

definition str_int :: "int \<Rightarrow> string" where
  "str_int i = (if i < 0 then CHR ''-'' # digits_of (nat (- i)) else digits_of (nat i))"

text \<open>
  The white space that \<^verbatim>\<open>int\<close> skips around a text: tab, line feed, vertical tab,
  form feed, carriage return and space, and the two spaces above ASCII, next line
  (\<^verbatim>\<open>0x85\<close>) and no-break space (\<^verbatim>\<open>0xA0\<close>), which \<^verbatim>\<open>int\<close> first turns into
  spaces. The separators \<^verbatim>\<open>0x1C\<close> to \<^verbatim>\<open>0x1F\<close> are not skipped.
\<close>

definition is_space :: "char \<Rightarrow> bool" where
  "is_space c \<longleftrightarrow>
     ((9::nat) \<le> of_char c \<and> of_char c \<le> (13::nat)) \<or> of_char c = (32::nat) \<or>
     of_char c = (133::nat) \<or> of_char c = (160::nat)"

definition strip :: "string \<Rightarrow> string" where
  "strip s = rev (dropWhile is_space (rev (dropWhile is_space s)))"

text \<open>
  The digits of a decimal literal after its first digit: digits, with single
  underscores allowed between two digits.
\<close>

fun parse_digits :: "nat \<Rightarrow> string \<Rightarrow> nat option" where
  "parse_digits acc [] = Some acc"
| "parse_digits acc [c] = (if is_digit c then Some (acc * 10 + digit_val c) else None)"
| "parse_digits acc (c # d # cs) =
     (if is_digit c then parse_digits (acc * 10 + digit_val c) (d # cs)
      else if c = CHR ''_'' \<and> is_digit d then parse_digits (acc * 10 + digit_val d) cs
      else None)"

definition parse_decimal :: "string \<Rightarrow> nat option" where
  "parse_decimal s =
     (case s of
        [] \<Rightarrow> None
      | c # cs \<Rightarrow> if is_digit c then parse_digits (digit_val c) cs else None)"

text \<open>\<^verbatim>\<open>int(s)\<close> for a string: white space around, an optional sign, a decimal literal.\<close>

definition py_int :: "string \<Rightarrow> py_error + int" where
  "py_int s =
     (case strip s of
        [] \<Rightarrow> Inl ValueError
      | c # cs \<Rightarrow>
          if c = CHR ''-'' then
            (case parse_decimal cs of None \<Rightarrow> Inl ValueError | Some n \<Rightarrow> Inr (- int n))
          else if c = CHR ''+'' then
            (case parse_decimal cs of None \<Rightarrow> Inl ValueError | Some n \<Rightarrow> Inr (int n))
          else
            (case parse_decimal (c # cs) of None \<Rightarrow> Inl ValueError | Some n \<Rightarrow> Inr (int n)))"

text \<open>\<^verbatim>\<open>s.split(sep)\<close>: the result is never empty; \<^verbatim>\<open>"".split(sep)\<close> is \<^verbatim>\<open>[""]\<close>.\<close>

fun split_on :: "char \<Rightarrow> string \<Rightarrow> string list" where
  "split_on sep [] = [[]]"
| "split_on sep (c # cs) =
     (if c = sep then [] # split_on sep cs
      else (c # hd (split_on sep cs)) # tl (split_on sep cs))"

text \<open>
  \<^verbatim>\<open>s.partition(sep)\<close>: the part before the first separator, the separator, the part
  after it; \<^verbatim>\<open>(s, "", "")\<close> when the separator does not occur.
\<close>

fun partition_on :: "char \<Rightarrow> string \<Rightarrow> string \<times> string \<times> string" where
  "partition_on sep [] = ([], [], [])"
| "partition_on sep (c # cs) =
     (if c = sep then ([], [sep], cs)
      else (case partition_on sep cs of (before, m, after) \<Rightarrow> (c # before, m, after)))"

fun join :: "string \<Rightarrow> string list \<Rightarrow> string" where
  "join sep [] = []"
| "join sep [x] = x"
| "join sep (x # y # ys) = x @ sep @ join sep (y # ys)"

definition startswith :: "string \<Rightarrow> string \<Rightarrow> bool" where
  "startswith s p \<longleftrightarrow> take (length p) s = p"

subsection \<open>\<^verbatim>\<open>LotoResult.__str__\<close> and \<^verbatim>\<open>LotoResult.from_string\<close>\<close>

definition zfill :: "nat \<Rightarrow> string \<Rightarrow> string" where
  "zfill w s = replicate (w - length s) CHR ''0'' @ s"

text \<open>
  The format \<^verbatim>\<open>%d-%m-%Y\<close>: day and month on two digits, the year on four (for a
  year below 1000 the padding depends on the platform's C library; the dates that
  \<^verbatim>\<open>strptime\<close> reads from draws are not concerned).
\<close>

definition strftime_dmy :: "datetime \<Rightarrow> string" where
  "strftime_dmy d =
     zfill 2 (digits_of (day d)) @ ''-'' @ zfill 2 (digits_of (month d)) @ ''-'' @
     zfill 4 (digits_of (year d))"

definition LotoResult_str :: "LotoResult \<Rightarrow> string" where
  "LotoResult_str self =
     ''tirage='' @ join ''-'' (map str_int (sort (grid self))) @ ''+'' @
     join ''+'' (map str_int (sort (chance self))) @
     (case date self of None \<Rightarrow> [] | Some d \<Rightarrow> '' le '' @ strftime_dmy d)"

text \<open>\<^verbatim>\<open>[int(i) for i in tokens]\<close>: the first failing conversion raises.\<close>

fun ints_of :: "string list \<Rightarrow> py_error + int list" where
  "ints_of [] = Inr []"
| "ints_of (t # ts) =
     (case py_int t of
        Inl e \<Rightarrow> Inl e
      | Inr i \<Rightarrow> (case ints_of ts of Inl e \<Rightarrow> Inl e | Inr is \<Rightarrow> Inr (i # is)))"

definition from_string :: "string \<Rightarrow> py_error + LotoResult" where
  "from_string input_string =
     (case partition_on CHR ''+'' input_string of
        (grid_str, m, chance_str) \<Rightarrow>
          (case ints_of (split_on CHR ''-'' grid_str) of
             Inl e \<Rightarrow> Inl ValueError
           | Inr g \<Rightarrow>
               (case ints_of (split_on CHR ''+'' chance_str) of
                  Inl e \<Rightarrow> Inl ValueError
                | Inr c \<Rightarrow> Inr \<lparr>grid = g, chance = c, date = None\<rparr>)))"

section \<open>The formats\<close>

text \<open>
  The three subclasses of \<^verbatim>\<open>LotoFormat\<close>, in the order of \<^verbatim>\<open>LOTO_FORMATS\<close>, and
  their class attributes. \<^verbatim>\<open>MAX\<close> is written \<open>MAX_BOULE\<close>.
\<close>

datatype loto_format = Loto5Boules | Loto6Boules | EuroMillion

definition LOTO_FORMATS :: "loto_format list" where
  "LOTO_FORMATS = [Loto5Boules, Loto6Boules, EuroMillion]"

fun CHANCE_PREFIX :: "loto_format \<Rightarrow> string" where
  "CHANCE_PREFIX Loto5Boules = ''numero_chance''"
| "CHANCE_PREFIX Loto6Boules = ''boule_complementaire''"
| "CHANCE_PREFIX EuroMillion = ''etoile_''"

fun CHANCE_NB :: "loto_format \<Rightarrow> int" where
  "CHANCE_NB Loto5Boules = 1"
| "CHANCE_NB Loto6Boules = 1"
| "CHANCE_NB EuroMillion = 2"

fun BOULES_NB :: "loto_format \<Rightarrow> int" where
  "BOULES_NB Loto5Boules = 5"
| "BOULES_NB Loto6Boules = 6"
| "BOULES_NB EuroMillion = 5"

definition BOULE_PREFIX :: "loto_format \<Rightarrow> string" where
  "BOULE_PREFIX cls = ''boule_''"

definition DATE_KEY :: "loto_format \<Rightarrow> string" where
  "DATE_KEY cls = ''date_de_tirage''"

fun MAX_BOULE :: "loto_format \<Rightarrow> int" where
  "MAX_BOULE Loto5Boules = 49"
| "MAX_BOULE Loto6Boules = 49"
| "MAX_BOULE EuroMillion = 50"

fun MAX_CHANCE :: "loto_format \<Rightarrow> int" where
  "MAX_CHANCE Loto5Boules = 10"
| "MAX_CHANCE Loto6Boules = 10"
| "MAX_CHANCE EuroMillion = 12"

text \<open>
  A regular expression of the shape the program uses: a sequence of literal characters
  and character ranges. \<^verbatim>\<open>re.match\<close> anchors the pattern at the start of the string
  only, so a string matches when the pattern matches one of its prefixes.
\<close>

datatype re_atom = Lit char | Range char char

fun re_match :: "re_atom list \<Rightarrow> string \<Rightarrow> bool" where
  "re_match [] s = True"
| "re_match (a # as) [] = False"
| "re_match (Lit c # as) (x # xs) = (x = c \<and> re_match as xs)"
| "re_match (Range lo hi # as) (x # xs) =
     ((of_char lo :: nat) \<le> of_char x \<and> (of_char x :: nat) \<le> of_char hi \<and> re_match as xs)"

text \<open>\<^verbatim>\<open>WHITELIST_BOULE\<close>: \<^verbatim>\<open>boule_[1-5]_second_tirage\<close> for \<^verbatim>\<open>Loto5Boules\<close>, else \<^verbatim>\<open>None\<close>.\<close>

fun WHITELIST_BOULE :: "loto_format \<Rightarrow> re_atom list option" where
  "WHITELIST_BOULE Loto5Boules =
     Some (map Lit ''boule_'' @ [Range CHR ''1'' CHR ''5''] @ map Lit ''_second_tirage'')"
| "WHITELIST_BOULE Loto6Boules = None"
| "WHITELIST_BOULE EuroMillion = None"

definition formatter :: "string \<Rightarrow> int \<Rightarrow> string" where
  "formatter prefix idx = prefix @ str_int idx"

definition boule_keys :: "loto_format \<Rightarrow> string list" where
  "boule_keys cls =
     (if BOULES_NB cls = 1 then [BOULE_PREFIX cls]
      else map (formatter (BOULE_PREFIX cls)) [1 .. BOULES_NB cls])"

definition chance_keys :: "loto_format \<Rightarrow> string list" where
  "chance_keys cls =
     (if CHANCE_NB cls = 1 then [CHANCE_PREFIX cls]
      else map (formatter (CHANCE_PREFIX cls)) [1 .. CHANCE_NB cls])"

definition whitelist :: "loto_format \<Rightarrow> string \<Rightarrow> bool" where
  "whitelist cls key =
     (case WHITELIST_BOULE cls of None \<Rightarrow> False | Some pat \<Rightarrow> re_match pat key)"

text \<open>
  \<^verbatim>\<open>is_one\<close> takes either a result (validity of a draw for the format) or a header row
  (does the format claim the file).
\<close>

datatype is_one_arg = Result LotoResult | Header "string list"

definition is_one :: "loto_format \<Rightarrow> is_one_arg \<Rightarrow> bool" where
  "is_one cls to_compare =
     (case to_compare of
        Result r \<Rightarrow>
          int (length (remdups (grid r))) = BOULES_NB cls \<and>
          int (length (remdups (chance r))) = CHANCE_NB cls \<and>
          list_all (\<lambda>i. 0 < i \<and> i \<le> MAX_BOULE cls) (grid r) \<and>
          list_all (\<lambda>i. 0 < i \<and> i \<le> MAX_CHANCE cls) (chance r)
      | Header hs \<Rightarrow>
          list_all (\<lambda>boule. boule \<in> set hs) (boule_keys cls) \<and>
          list_all (\<lambda>chance. chance \<in> set hs) (chance_keys cls) \<and>
          length (filter
            (\<lambda>h. (startswith h (BOULE_PREFIX cls) \<or> startswith h (CHANCE_PREFIX cls)) \<and>
                 h \<notin> set (boule_keys cls @ chance_keys cls) \<and>
                 \<not> whitelist cls h) hs) = 0)"

section \<open>Rows and extraction\<close>

text \<open>
  A row of \<^verbatim>\<open>csv.DictReader\<close> maps a field name to its text, or to \<^verbatim>\<open>None\<close> when
  the line is shorter than the header. \<^verbatim>\<open>line[k]\<close> raises \<^verbatim>\<open>KeyError\<close> on a name
  that is not a key, and \<^verbatim>\<open>int(None)\<close> raises \<^verbatim>\<open>TypeError\<close>.
\<close>

type_synonym row = "string \<rightharpoonup> string option"

definition getitem :: "row \<Rightarrow> string \<Rightarrow> py_error + string option" where
  "getitem line k = (case line k of None \<Rightarrow> Inl KeyError | Some v \<Rightarrow> Inr v)"

definition int_cell :: "string option \<Rightarrow> py_error + int" where
  "int_cell v = (case v of None \<Rightarrow> Inl TypeError | Some s \<Rightarrow> py_int s)"

text \<open>\<^verbatim>\<open>tuple(int(line[k]) for k in keys)\<close>\<close>

fun ints_at :: "row \<Rightarrow> string list \<Rightarrow> py_error + int list" where
  "ints_at line [] = Inr []"
| "ints_at line (k # ks) =
     (case getitem line k of
        Inl e \<Rightarrow> Inl e
      | Inr v \<Rightarrow>
          (case int_cell v of
             Inl e \<Rightarrow> Inl e
           | Inr i \<Rightarrow> (case ints_at line ks of Inl e \<Rightarrow> Inl e | Inr is \<Rightarrow> Inr (i # is))))"

text \<open>
  What the program reports while it runs: a call of \<^verbatim>\<open>warnings.warn\<close> with the text
  of a date error, the warning that no format claims a header, and the message printed
  by the handler of \<^verbatim>\<open>read_loto_file\<close>. A computation returns the events it emitted
  together with its result or the exception it raised. Warnings are taken with the
  default filters, under which \<^verbatim>\<open>warnings.warn\<close> reports and returns.
\<close>

datatype event = Warning string | WarningNoFormat "string list" | Printed py_error

definition find_date_format :: "string \<Rightarrow> string list" where
  "find_date_format getted_date =
     (if CHR ''/'' \<in> set getted_date then [''%d/%m/%Y'', ''%d/%m/%y''] else []) @ [''%Y%m%d'']"

text \<open>
  \<^verbatim>\<open>datetime.strptime\<close> belongs to the standard library: it is a parameter \<open>strp\<close> of
  the model, giving for a text and a pattern either the date or the message of the
  exception raised. The loop over the patterns returns at the first success and warns
  at each failure.
\<close>

type_synonym strptime = "string \<Rightarrow> string \<Rightarrow> string + datetime"

fun try_formats ::
  "strptime \<Rightarrow> int list \<Rightarrow> int list \<Rightarrow> string \<Rightarrow> string list \<Rightarrow> event list \<times> LotoResult list"
where
  "try_formats strp g c loto_date [] = ([], [])"
| "try_formats strp g c loto_date (date_fmt # fmts) =
     (case strp loto_date date_fmt of
        Inr d \<Rightarrow> ([], [\<lparr>grid = g, chance = c, date = Some d\<rparr>])
      | Inl msg \<Rightarrow>
          (case try_formats strp g c loto_date fmts of
             (ws, res) \<Rightarrow> (Warning msg # ws, res)))"

text \<open>\<^verbatim>\<open>LotoFormat.extract_line\<close>, the extraction shared by the formats.\<close>

definition LotoFormat_extract_line ::
  "strptime \<Rightarrow> loto_format \<Rightarrow> row \<Rightarrow> event list \<times> (py_error + LotoResult list)"
where
  "LotoFormat_extract_line strp cls line =
     (case ints_at line (boule_keys cls) of
        Inl e \<Rightarrow> ([], Inl e)
      | Inr g \<Rightarrow>
          (case ints_at line (chance_keys cls) of
             Inl e \<Rightarrow> ([], Inl e)
           | Inr c \<Rightarrow>
               (case getitem line (DATE_KEY cls) of
                  Inl e \<Rightarrow> ([], Inl e)
                | Inr None \<Rightarrow> ([], Inl TypeError)
                | Inr (Some loto_date) \<Rightarrow>
                    (case try_formats strp g c loto_date (find_date_format loto_date) of
                       (ws, res) \<Rightarrow> (ws, Inr res)))))"

definition second_format :: "int \<Rightarrow> string" where
  "second_format i = ''boule_'' @ str_int i @ ''_second_tirage''"

text \<open>The loop of \<^verbatim>\<open>Loto5Boules.extract_line\<close> that collects \<^verbatim>\<open>seq\<close>.\<close>

fun second_tirage :: "row \<Rightarrow> int list \<Rightarrow> py_error + int list" where
  "second_tirage line [] = Inr []"
| "second_tirage line (i # is) =
     (case line (second_format i) of
        None \<Rightarrow> second_tirage line is
      | Some v \<Rightarrow>
          (case int_cell v of
             Inl e \<Rightarrow> Inl e
           | Inr n \<Rightarrow>
               (case second_tirage line is of Inl e \<Rightarrow> Inl e | Inr seq \<Rightarrow> Inr (n # seq))))"

definition Loto5Boules_extract_line ::
  "strptime \<Rightarrow> row \<Rightarrow> event list \<times> (py_error + LotoResult list)"
where
  "Loto5Boules_extract_line strp line =
     (case LotoFormat_extract_line strp Loto5Boules line of
        (ws, Inl e) \<Rightarrow> (ws, Inl e)
      | (ws, Inr res) \<Rightarrow>
          (case second_tirage line [1 .. BOULES_NB Loto5Boules] of
             Inl e \<Rightarrow> (ws, Inl e)
           | Inr seq \<Rightarrow>
               if seq \<noteq> [] then
                 (case ints_at line (chance_keys Loto5Boules) of
                    Inl e \<Rightarrow> (ws, Inl e)
                  | Inr c \<Rightarrow> (ws, Inr (res @ [\<lparr>grid = seq, chance = c, date = None\<rparr>])))
               else (ws, Inr res)))"

text \<open>\<^verbatim>\<open>self.extract_line(line)\<close>: \<^verbatim>\<open>Loto5Boules\<close> overrides the method.\<close>

fun extract_line ::
  "strptime \<Rightarrow> loto_format \<Rightarrow> row \<Rightarrow> event list \<times> (py_error + LotoResult list)"
where
  "extract_line strp Loto5Boules line = Loto5Boules_extract_line strp line"
| "extract_line strp Loto6Boules line = LotoFormat_extract_line strp Loto6Boules line"
| "extract_line strp EuroMillion line = LotoFormat_extract_line strp EuroMillion line"

section \<open>Loading a file\<close>

text \<open>
  What \<^verbatim>\<open>open(filename)\<close> and the reader built on the file give: \<^verbatim>\<open>open\<close> raises, or
  there is a reader whose \<^verbatim>\<open>fieldnames\<close> is the header (\<^verbatim>\<open>None\<close> for an empty file, an
  exception when the first line cannot be read) and whose iteration yields the rows,
  then stops or raises (a line that cannot be decoded, a malformed line).
\<close>

record csv_reader =
  fieldnames :: "py_error + string list option"
  rows :: "row list"
  rows_error :: "py_error option"

datatype opened = OpenFails py_error | Opened csv_reader

text \<open>\<^verbatim>\<open>SUPPORTED_FORMATS\<close>: the suffix \<^verbatim>\<open>.csv\<close> with its delimiter.\<close>

definition SUPPORTED_FORMATS :: "string \<rightharpoonup> char" where
  "SUPPORTED_FORMATS = [''.csv'' \<mapsto> CHR '';'']"

text \<open>
  \<^verbatim>\<open>[i for i in data_cls(reader)]\<close>: \<^verbatim>\<open>__iter__\<close> extracts each row in turn; an
  exception of a row or of the reader ends the iteration.
\<close>

fun iter_rows ::
  "strptime \<Rightarrow> loto_format \<Rightarrow> row list \<Rightarrow> py_error option \<Rightarrow>
     event list \<times> (py_error + LotoResult list)"
where
  "iter_rows strp cls [] err = (case err of None \<Rightarrow> ([], Inr []) | Some e \<Rightarrow> ([], Inl e))"
| "iter_rows strp cls (line # others) err =
     (case extract_line strp cls line of
        (ws, Inl e) \<Rightarrow> (ws, Inl e)
      | (ws, Inr res) \<Rightarrow>
          (case iter_rows strp cls others err of
             (ws', Inl e) \<Rightarrow> (ws @ ws', Inl e)
           | (ws', Inr rest) \<Rightarrow> (ws @ ws', Inr (res @ rest))))"

text \<open>The loop over \<^verbatim>\<open>LOTO_FORMATS.values()\<close>: the first format that claims the header.\<close>

fun first_format :: "loto_format list \<Rightarrow> string list \<Rightarrow> loto_format option" where
  "first_format [] header = None"
| "first_format (data_cls # others) header =
     (if is_one data_cls (Header header) then Some data_cls else first_format others header)"

text \<open>
  The body of the \<^verbatim>\<open>try\<close> block of \<^verbatim>\<open>read_loto_file\<close>. A header that is \<^verbatim>\<open>None\<close>
  makes \<^verbatim>\<open>is_one\<close> raise \<^verbatim>\<open>TypeError\<close> (\<^verbatim>\<open>boule in None\<close>).
\<close>

definition read_body ::
  "strptime \<Rightarrow> csv_reader \<Rightarrow> event list \<times> (py_error + LotoResult list)"
where
  "read_body strp reader =
     (case fieldnames reader of
        Inl e \<Rightarrow> ([], Inl e)
      | Inr None \<Rightarrow> ([], Inl TypeError)
      | Inr (Some header) \<Rightarrow>
          (case first_format LOTO_FORMATS header of
             Some data_cls \<Rightarrow> iter_rows strp data_cls (rows reader) (rows_error reader)
           | None \<Rightarrow> ([WarningNoFormat header], Inr [])))"

text \<open>
  \<^verbatim>\<open>read_loto_file\<close>, for the suffix of the file name and what opening the file gives.
  \<^verbatim>\<open>open\<close> and the lookup of the suffix stand before the \<^verbatim>\<open>try\<close>; the handler
  prints the exception and returns the empty list.
\<close>

definition read_loto_file ::
  "strptime \<Rightarrow> string \<Rightarrow> opened \<Rightarrow> event list \<times> (py_error + LotoResult list)"
where
  "read_loto_file strp suffix file =
     (case file of
        OpenFails e \<Rightarrow> ([], Inl e)
      | Opened reader \<Rightarrow>
          (case SUPPORTED_FORMATS suffix of
             None \<Rightarrow> ([], Inl KeyError)
           | Some format_reader \<Rightarrow>
               (case read_body strp reader of
                  (evs, Inl e) \<Rightarrow> (evs @ [Printed e], Inr [])
                | (evs, Inr res) \<Rightarrow> (evs, Inr res))))"

text \<open>
  A date parser for the examples, an instance of the parameter \<open>strp\<close>: under the
  pattern \<^verbatim>\<open>%Y%m%d\<close> it reads a text of eight digits, and it fails otherwise.
\<close>

definition decimal :: "string \<Rightarrow> nat" where
  "decimal s = foldl (\<lambda>a c. a * 10 + digit_val c) 0 s"

definition strptime_ymd :: strptime where
  "strptime_ymd date_string fmt =
     (if fmt = ''%Y%m%d'' \<and> length date_string = 8 \<and> list_all is_digit date_string
      then Inr \<lparr>year = decimal (take 4 date_string),
                month = decimal (take 2 (drop 4 date_string)),
                day = decimal (drop 6 date_string)\<rparr>
      else Inl ''time data does not match format'')"

section \<open>Generation\<close>

text \<open>
  \<^verbatim>\<open>random.sample\<close> belongs to the standard library. The random source is a state of
  any type, and the sampler is a parameter \<open>smp\<close> of the model: for a state, a
  population and a size it gives the chosen list and the next state. The check on the
  size is the one \<^verbatim>\<open>random.sample\<close> documents (\<^verbatim>\<open>ValueError\<close> when the sample is
  larger than the population or negative).
\<close>

type_synonym 's sampler = "'s \<Rightarrow> int list \<Rightarrow> nat \<Rightarrow> int list \<times> 's"

definition random_sample ::
  "'s sampler \<Rightarrow> 's \<Rightarrow> int list \<Rightarrow> int \<Rightarrow> py_error + (int list \<times> 's)"
where
  "random_sample smp s population k =
     (if 0 \<le> k \<and> k \<le> int (length population) then Inr (smp s population (nat k))
      else Inl ValueError)"

text \<open>
  The contract that the documentation of \<^verbatim>\<open>random.sample\<close> states (the function is
  library code): it returns a list of the requested length made of elements chosen at
  pairwise distinct positions of the population.
\<close>

definition sample_contract :: "'s sampler \<Rightarrow> bool" where
  "sample_contract smp \<longleftrightarrow>
     (\<forall>s population k. k \<le> length population \<longrightarrow>
        (\<exists>js. length js = k \<and> distinct js \<and> (\<forall>j \<in> set js. j < length population) \<and>
              fst (smp s population k) = map (\<lambda>j. population ! j) js))"

definition generate :: "'s sampler \<Rightarrow> loto_format \<Rightarrow> 's \<Rightarrow> py_error + (LotoResult \<times> 's)" where
  "generate smp cls s =
     (case random_sample smp s [1 .. MAX_BOULE cls] (BOULES_NB cls) of
        Inl e \<Rightarrow> Inl e
      | Inr (g, s1) \<Rightarrow>
          (case random_sample smp s1 [1 .. MAX_CHANCE cls] (CHANCE_NB cls) of
             Inl e \<Rightarrow> Inl e
           | Inr (c, s2) \<Rightarrow> Inr (\<lparr>grid = g, chance = c, date = None\<rparr>, s2)))"

text \<open>\<^verbatim>\<open>gen in results\<close>: some entry of the list is equal to the candidate.\<close>

definition contains :: "LotoResult \<Rightarrow> LotoResult list \<Rightarrow> bool" where
  "contains gen results = list_ex (\<lambda>h. loto_eq h gen) results"

text \<open>
  \<^verbatim>\<open>generate_tirage\<close>: the loop has no bound, so the function is partial; \<open>None\<close> is
  the run that never returns. The message printed before the loop is left out.
\<close>

partial_function (option) generate_tirage ::
  "'s sampler \<Rightarrow> LotoResult list \<Rightarrow> loto_format \<Rightarrow> 's \<Rightarrow> (py_error + LotoResult \<times> 's) option"
where
  "generate_tirage smp results loto_cls s =
     (case generate smp loto_cls s of
        Inl e \<Rightarrow> Some (Inl e)
      | Inr (gen, s') \<Rightarrow>
          if contains gen results then generate_tirage smp results loto_cls s'
          else Some (Inr (gen, s')))"

declare generate_tirage.simps [code]

text \<open>
  A sampler for the examples, an instance of the parameter \<open>smp\<close>: the state counts the
  draws; the first draw takes the first elements of the population, the later ones the
  last elements.
\<close>

definition window_sampler :: "nat sampler" where
  "window_sampler s population k =
     (take k (drop (if s = 0 then 0 else length population - k) population), Suc s)"

section \<open>Example rows\<close>

text \<open>
  Rows of a file of the five-ball format, used to instantiate the theorems: a plain
  row, the same row with the five columns of the second draw, and the same rows with a
  date that no pattern reads or with a main number that is not numeric.
\<close>

definition header_5 :: "string list" where
  "header_5 = [''boule_1'', ''boule_2'', ''boule_3'', ''boule_4'', ''boule_5'',
     ''numero_chance'', ''date_de_tirage'']"

definition row_plain :: row where
  "row_plain = map_of
     [(''boule_1'', Some ''1''), (''boule_2'', Some ''2''), (''boule_3'', Some ''3''),
      (''boule_4'', Some ''4''), (''boule_5'', Some ''5''), (''numero_chance'', Some ''6''),
      (''date_de_tirage'', Some ''20200101'')]"

definition row_second :: row where
  "row_second = map_of
     [(''boule_1'', Some ''1''), (''boule_2'', Some ''2''), (''boule_3'', Some ''3''),
      (''boule_4'', Some ''4''), (''boule_5'', Some ''5''), (''numero_chance'', Some ''6''),
      (''date_de_tirage'', Some ''20200101''),
      (''boule_1_second_tirage'', Some ''11''), (''boule_2_second_tirage'', Some ''12''),
      (''boule_3_second_tirage'', Some ''13''), (''boule_4_second_tirage'', Some ''14''),
      (''boule_5_second_tirage'', Some ''15'')]"

definition row_second_bad_date :: row where
  "row_second_bad_date = row_second(''date_de_tirage'' \<mapsto> Some ''unknown'')"

definition row_bad_date :: row where
  "row_bad_date = row_plain(''date_de_tirage'' \<mapsto> Some ''unknown'')"

definition row_bad_number :: row where
  "row_bad_number = row_plain(''boule_3'' \<mapsto> Some ''x'')"

text \<open>
  The header of a file with the columns of the second draw, and rows of such a file
  whose cell \<^verbatim>\<open>boule_3_second_tirage\<close> is empty.
\<close>

definition header_5_second :: "string list" where
  "header_5_second = header_5 @
     [''boule_1_second_tirage'', ''boule_2_second_tirage'', ''boule_3_second_tirage'',
      ''boule_4_second_tirage'', ''boule_5_second_tirage'']"

definition row_second_empty_cell :: row where
  "row_second_empty_cell = row_second(''boule_3_second_tirage'' \<mapsto> Some [])"

definition row_second_bad_date_empty_cell :: row where
  "row_second_bad_date_empty_cell =
     row_second_bad_date(''boule_3_second_tirage'' \<mapsto> Some [])"

section \<open>Equality of results\<close>

lemma LotoResult_eq_loto_eq:
  "LotoResult_eq a (IsLotoResult b) = Inr (loto_eq a b)"
  by (simp add: LotoResult_eq_def loto_eq_def)

lemma sort_eq_iff_mset_eq:
  fixes xs ys :: "int list"
  shows "sort xs = sort ys \<longleftrightarrow> mset xs = mset ys"
proof
  assume "sort xs = sort ys"
  then have "mset (sort xs) = mset (sort ys)" by simp
  then show "mset xs = mset ys" by simp
next
  assume "mset xs = mset ys"
  then have "mset (sort ys) = mset xs" by simp
  then show "sort xs = sort ys"
    by (rule properties_for_sort) simp
qed

lemma loto_eq_same_length:
  "length (grid a) = length (grid b) \<Longrightarrow> loto_eq a b \<longleftrightarrow> mset (grid a) = mset (grid b)"
  by (simp add: loto_eq_def sort_eq_iff_mset_eq)

lemma loto_eq_shorter:
  "length (grid a) < length (grid b) \<Longrightarrow> loto_eq a b \<longleftrightarrow> set (grid a) \<subseteq> set (grid b)"
  by (auto simp: loto_eq_def list_all_iff)

lemma loto_eq_longer:
  "length (grid b) < length (grid a) \<Longrightarrow> loto_eq a b \<longleftrightarrow> set (grid b) \<subseteq> set (grid a)"
  by (auto simp: loto_eq_def list_all_iff)

lemma loto_eq_sym: "loto_eq a b \<longleftrightarrow> loto_eq b a"
  by (auto simp: loto_eq_def)

lemma loto_eq_refl: "loto_eq a a"
  by (simp add: loto_eq_def)

text \<open>
  Claim C1, as the code has it. For two results whose grids have the same length,
  \<^verbatim>\<open>a == b\<close> compares the sorted grids, that is the grids as multisets; this is
  equality of the sets of main numbers when neither grid repeats a number. When the
  lengths differ, \<^verbatim>\<open>a == b\<close> holds iff every main number of the shorter grid occurs
  in the longer grid. The chance numbers and the date never influence the outcome.
\<close>

theorem LotoResult_eq_characterisation:
  "(length (grid a) = length (grid b) \<longrightarrow>
      LotoResult_eq a (IsLotoResult b) = Inr (mset (grid a) = mset (grid b))) \<and>
   (length (grid a) = length (grid b) \<and> distinct (grid a) \<and> distinct (grid b) \<longrightarrow>
      LotoResult_eq a (IsLotoResult b) = Inr (set (grid a) = set (grid b))) \<and>
   (length (grid a) < length (grid b) \<longrightarrow>
      LotoResult_eq a (IsLotoResult b) = Inr (set (grid a) \<subseteq> set (grid b))) \<and>
   (length (grid b) < length (grid a) \<longrightarrow>
      LotoResult_eq a (IsLotoResult b) = Inr (set (grid b) \<subseteq> set (grid a))) \<and>
   (grid a' = grid a \<and> grid b' = grid b \<longrightarrow>
      LotoResult_eq a' (IsLotoResult b') = LotoResult_eq a (IsLotoResult b))"
proof (intro conjI impI)
  assume "length (grid a) = length (grid b)"
  then show "LotoResult_eq a (IsLotoResult b) = Inr (mset (grid a) = mset (grid b))"
    by (simp add: LotoResult_eq_loto_eq loto_eq_same_length)
next
  assume h: "length (grid a) = length (grid b) \<and> distinct (grid a) \<and> distinct (grid b)"
  then have "set (grid a) = set (grid b) \<longleftrightarrow> mset (grid a) = mset (grid b)"
    by (simp add: set_eq_iff_mset_eq_distinct)
  with h show "LotoResult_eq a (IsLotoResult b) = Inr (set (grid a) = set (grid b))"
    by (simp add: LotoResult_eq_loto_eq loto_eq_same_length)
next
  assume "length (grid a) < length (grid b)"
  then show "LotoResult_eq a (IsLotoResult b) = Inr (set (grid a) \<subseteq> set (grid b))"
    by (simp add: LotoResult_eq_loto_eq loto_eq_shorter)
next
  assume "length (grid b) < length (grid a)"
  then show "LotoResult_eq a (IsLotoResult b) = Inr (set (grid b) \<subseteq> set (grid a))"
    by (simp add: LotoResult_eq_loto_eq loto_eq_longer)
next
  assume "grid a' = grid a \<and> grid b' = grid b"
  then have "loto_eq a' b' = loto_eq a b"
    by (simp add: loto_eq_def)
  then show "LotoResult_eq a' (IsLotoResult b') = LotoResult_eq a (IsLotoResult b)"
    by (simp add: LotoResult_eq_loto_eq)
qed

theorem LotoResult_eq_characterisation_witness:
  "LotoResult_eq \<lparr>grid = [1, 2, 3], chance = [7], date = None\<rparr>
       (IsLotoResult \<lparr>grid = [1, 2, 3], chance = [9], date = None\<rparr>) =
     Inr True \<and>
   LotoResult_eq \<lparr>grid = [5, 2], chance = [7], date = None\<rparr>
       (IsLotoResult \<lparr>grid = [1, 2, 3, 4, 5], chance = [9], date = None\<rparr>) =
     Inr True \<and>
   LotoResult_eq \<lparr>grid = [1, 2, 3, 4, 5], chance = [9], date = None\<rparr>
       (IsLotoResult \<lparr>grid = [5, 6], chance = [], date = None\<rparr>) =
     Inr False"
  using
    LotoResult_eq_characterisation
      [of "\<lparr>grid = [1, 2, 3], chance = [7], date = None\<rparr>"
          "\<lparr>grid = [1, 2, 3], chance = [9], date = None\<rparr>"
          "\<lparr>grid = [1, 2, 3], chance = [], date = None\<rparr>"
          "\<lparr>grid = [1, 2, 3], chance = [], date = None\<rparr>"]
    LotoResult_eq_characterisation
      [of "\<lparr>grid = [5, 2], chance = [7], date = None\<rparr>"
          "\<lparr>grid = [1, 2, 3, 4, 5], chance = [9], date = None\<rparr>"
          "\<lparr>grid = [5, 2], chance = [8], date = None\<rparr>"
          "\<lparr>grid = [1, 2, 3, 4, 5], chance = [], date = None\<rparr>"]
    LotoResult_eq_characterisation
      [of "\<lparr>grid = [1, 2, 3, 4, 5], chance = [9], date = None\<rparr>"
          "\<lparr>grid = [5, 6], chance = [], date = None\<rparr>"
          "\<lparr>grid = [1, 2, 3, 4, 5], chance = [9], date = None\<rparr>"
          "\<lparr>grid = [5, 6], chance = [], date = None\<rparr>"]
  by simp

text \<open>
  The claim as first stated compares the sets of main numbers of two grids of equal
  length. The grids \<^verbatim>\<open>[1, 1, 2]\<close> and \<^verbatim>\<open>[1, 2, 2]\<close> (as \<^verbatim>\<open>from_string\<close> builds them
  from \<^verbatim>\<open>1-1-2+1\<close> and \<^verbatim>\<open>1-2-2+1\<close>) have the same length and the same set of
  numbers, and are not equal.
\<close>

theorem LotoResult_eq_set_counterexample:
  "length (grid \<lparr>grid = [1, 1, 2], chance = [1], date = None\<rparr>) =
     length (grid \<lparr>grid = [1, 2, 2], chance = [1], date = None\<rparr>) \<and>
   set (grid \<lparr>grid = [1, 1, 2], chance = [1], date = None\<rparr>) =
     set (grid \<lparr>grid = [1, 2, 2], chance = [1], date = None\<rparr>) \<and>
   LotoResult_eq \<lparr>grid = [1, 1, 2], chance = [1], date = None\<rparr>
     (IsLotoResult \<lparr>grid = [1, 2, 2], chance = [1], date = None\<rparr>) = Inr False"
  by (simp add: LotoResult_eq_def)

text \<open>
  Claim C9, as the code has it. Both \<^verbatim>\<open>__eq__\<close> and \<^verbatim>\<open>__ne__\<close> start with an
  \<^verbatim>\<open>isinstance\<close> guard that raises \<^verbatim>\<open>NotImplementedError\<close>: comparing a result
  with a value of any other type raises, it does not return false. Between two results
  both comparisons return a boolean.
\<close>

theorem LotoResult_eq_other_type_raises:
  "LotoResult_eq r (NotLotoResult x) = Inl NotImplementedError \<and>
   LotoResult_ne r (NotLotoResult x) = Inl NotImplementedError"
  by (simp add: LotoResult_eq_def LotoResult_ne_def)

theorem LotoResult_eq_other_type_counterexample:
  "LotoResult_eq \<lparr>grid = [1, 2, 3, 4, 5], chance = [6], date = None\<rparr>
     (NotLotoResult (PyStr ''1-2-3-4-5+6'')) = Inl NotImplementedError \<and>
   LotoResult_ne \<lparr>grid = [1, 2, 3, 4, 5], chance = [6], date = None\<rparr>
     (NotLotoResult (PyStr ''1-2-3-4-5+6'')) = Inl NotImplementedError"
  by (simp add: LotoResult_eq_def LotoResult_ne_def)

section \<open>Header classification\<close>

lemma boule_keys_Loto5Boules:
  "boule_keys Loto5Boules = [''boule_1'', ''boule_2'', ''boule_3'', ''boule_4'', ''boule_5'']"
  by code_simp

lemma boule_keys_Loto6Boules:
  "boule_keys Loto6Boules =
     [''boule_1'', ''boule_2'', ''boule_3'', ''boule_4'', ''boule_5'', ''boule_6'']"
  by code_simp

lemma boule_keys_EuroMillion:
  "boule_keys EuroMillion = [''boule_1'', ''boule_2'', ''boule_3'', ''boule_4'', ''boule_5'']"
  by code_simp

lemma chance_keys_Loto5Boules: "chance_keys Loto5Boules = [''numero_chance'']"
  by code_simp

lemma chance_keys_Loto6Boules: "chance_keys Loto6Boules = [''boule_complementaire'']"
  by code_simp

lemma chance_keys_EuroMillion: "chance_keys EuroMillion = [''etoile_1'', ''etoile_2'']"
  by code_simp

lemmas format_keys =
  boule_keys_Loto5Boules boule_keys_Loto6Boules boule_keys_EuroMillion
  chance_keys_Loto5Boules chance_keys_Loto6Boules chance_keys_EuroMillion

lemma is_one_Header_iff:
  "is_one cls (Header hs) \<longleftrightarrow>
     (\<forall>k \<in> set (boule_keys cls) \<union> set (chance_keys cls). k \<in> set hs) \<and>
     (\<forall>h \<in> set hs.
        startswith h (BOULE_PREFIX cls) \<or> startswith h (CHANCE_PREFIX cls) \<longrightarrow>
        h \<in> set (boule_keys cls) \<union> set (chance_keys cls) \<or> whitelist cls h)"
  by (auto simp: is_one_def list_all_iff filter_empty_conv)

lemma exact_header_Loto5Boules:
  assumes "set hs = {''boule_1'', ''boule_2'', ''boule_3'', ''boule_4'', ''boule_5'',
    ''numero_chance'', ''date_de_tirage''}"
  shows "is_one Loto5Boules (Header hs)"
  unfolding is_one_Header_iff assms
  by (simp add: format_keys startswith_def BOULE_PREFIX_def)

lemma exact_header_not_Loto6Boules:
  assumes "set hs = {''boule_1'', ''boule_2'', ''boule_3'', ''boule_4'', ''boule_5'',
    ''numero_chance'', ''date_de_tirage''}"
  shows "\<not> is_one Loto6Boules (Header hs)"
  unfolding is_one_Header_iff assms
  by (simp add: format_keys)

lemma exact_header_not_EuroMillion:
  assumes "set hs = {''boule_1'', ''boule_2'', ''boule_3'', ''boule_4'', ''boule_5'',
    ''numero_chance'', ''date_de_tirage''}"
  shows "\<not> is_one EuroMillion (Header hs)"
  unfolding is_one_Header_iff assms
  by (simp add: format_keys)

text \<open>
  Claim C2. A format claims a header row iff every key of \<^verbatim>\<open>boule_keys()\<close> and
  \<^verbatim>\<open>chance_keys()\<close> is in the header and every header entry that starts with the
  format's main or bonus prefix is one of those keys or matches the format's whitelist
  pattern. A header made of exactly \<^verbatim>\<open>boule_1\<close> .. \<^verbatim>\<open>boule_5\<close>, \<^verbatim>\<open>numero_chance\<close>
  and \<^verbatim>\<open>date_de_tirage\<close> (in any order) is claimed by \<^verbatim>\<open>Loto5Boules\<close> and by no
  other format.
\<close>

theorem is_one_header_claims:
  "(is_one cls (Header hs) \<longleftrightarrow>
      (\<forall>k \<in> set (boule_keys cls) \<union> set (chance_keys cls). k \<in> set hs) \<and>
      (\<forall>h \<in> set hs.
         startswith h (BOULE_PREFIX cls) \<or> startswith h (CHANCE_PREFIX cls) \<longrightarrow>
         h \<in> set (boule_keys cls) \<union> set (chance_keys cls) \<or> whitelist cls h)) \<and>
   (set hs = {''boule_1'', ''boule_2'', ''boule_3'', ''boule_4'', ''boule_5'',
      ''numero_chance'', ''date_de_tirage''} \<longrightarrow>
      is_one Loto5Boules (Header hs) \<and>
      (\<forall>other. other \<noteq> Loto5Boules \<longrightarrow> \<not> is_one other (Header hs)))"
proof (intro conjI impI allI)
  show "is_one cls (Header hs) \<longleftrightarrow>
      (\<forall>k \<in> set (boule_keys cls) \<union> set (chance_keys cls). k \<in> set hs) \<and>
      (\<forall>h \<in> set hs.
         startswith h (BOULE_PREFIX cls) \<or> startswith h (CHANCE_PREFIX cls) \<longrightarrow>
         h \<in> set (boule_keys cls) \<union> set (chance_keys cls) \<or> whitelist cls h)"
    by (rule is_one_Header_iff)
next
  assume "set hs = {''boule_1'', ''boule_2'', ''boule_3'', ''boule_4'', ''boule_5'',
    ''numero_chance'', ''date_de_tirage''}"
  then show "is_one Loto5Boules (Header hs)"
    by (rule exact_header_Loto5Boules)
next
  fix other
  assume hs: "set hs = {''boule_1'', ''boule_2'', ''boule_3'', ''boule_4'', ''boule_5'',
    ''numero_chance'', ''date_de_tirage''}"
    and other: "other \<noteq> Loto5Boules"
  show "\<not> is_one other (Header hs)"
  proof (cases other)
    case Loto5Boules
    with other show ?thesis by simp
  next
    case Loto6Boules
    with hs show ?thesis by (simp only: exact_header_not_Loto6Boules not_False_eq_True)
  next
    case EuroMillion
    with hs show ?thesis by (simp only: exact_header_not_EuroMillion not_False_eq_True)
  qed
qed

theorem is_one_header_claims_witness:
  "is_one Loto5Boules
     (Header [''boule_1'', ''boule_2'', ''boule_3'', ''boule_4'', ''boule_5'',
        ''numero_chance'', ''date_de_tirage'']) \<and>
   \<not> is_one Loto6Boules
     (Header [''boule_1'', ''boule_2'', ''boule_3'', ''boule_4'', ''boule_5'',
        ''numero_chance'', ''date_de_tirage'']) \<and>
   \<not> is_one EuroMillion
     (Header [''boule_1'', ''boule_2'', ''boule_3'', ''boule_4'', ''boule_5'',
        ''numero_chance'', ''date_de_tirage''])"
proof -
  have "set [''boule_1'', ''boule_2'', ''boule_3'', ''boule_4'', ''boule_5'',
        ''numero_chance'', ''date_de_tirage''] =
      {''boule_1'', ''boule_2'', ''boule_3'', ''boule_4'', ''boule_5'',
        ''numero_chance'', ''date_de_tirage''}"
    by simp
  with is_one_header_claims
    [of Loto5Boules "[''boule_1'', ''boule_2'', ''boule_3'', ''boule_4'', ''boule_5'',
        ''numero_chance'', ''date_de_tirage'']"]
  have "is_one Loto5Boules
     (Header [''boule_1'', ''boule_2'', ''boule_3'', ''boule_4'', ''boule_5'',
        ''numero_chance'', ''date_de_tirage'']) \<and>
    (\<forall>other. other \<noteq> Loto5Boules \<longrightarrow> \<not> is_one other
     (Header [''boule_1'', ''boule_2'', ''boule_3'', ''boule_4'', ''boule_5'',
        ''numero_chance'', ''date_de_tirage'']))"
    by blast
  then show ?thesis by simp
qed

section \<open>Text of a result and parsing\<close>

lemma is_digit_digit_char: "d < 10 \<Longrightarrow> is_digit (digit_char d)"
  by (simp add: is_digit_def digit_char_def)

lemma digit_val_digit_char: "d < 10 \<Longrightarrow> digit_val (digit_char d) = d"
  by (simp add: digit_val_def digit_char_def)

lemma digits_of_all_digits: "list_all is_digit (digits_of n)"
proof (induction n rule: digits_of.induct)
  case (1 n)
  show ?case
  proof (cases "n < 10")
    case True
    then show ?thesis
      by (subst digits_of.simps) (simp add: is_digit_digit_char)
  next
    case False
    with "1" have "list_all is_digit (digits_of (n div 10))" by simp
    moreover have "is_digit (digit_char (n mod 10))"
      by (simp add: is_digit_digit_char)
    ultimately show ?thesis
      using False by (subst digits_of.simps) simp
  qed
qed

lemma digits_of_nonempty: "digits_of n \<noteq> []"
  by (subst digits_of.simps) simp

lemma foldl_digits_of: "foldl (\<lambda>a c. a * 10 + digit_val c) 0 (digits_of n) = n"
proof (induction n rule: digits_of.induct)
  case (1 n)
  show ?case
  proof (cases "n < 10")
    case True
    then show ?thesis
      by (subst digits_of.simps) (simp add: digit_val_digit_char)
  next
    case False
    with "1" have "foldl (\<lambda>a c. a * 10 + digit_val c) 0 (digits_of (n div 10)) = n div 10"
      by simp
    then show ?thesis
      using False by (subst digits_of.simps) (simp add: digit_val_digit_char)
  qed
qed

lemma parse_digits_all_digits:
  "list_all is_digit ds \<Longrightarrow>
     parse_digits acc ds = Some (foldl (\<lambda>a c. a * 10 + digit_val c) acc ds)"
  by (induction acc ds rule: parse_digits.induct) auto

lemma parse_decimal_digits_of: "parse_decimal (digits_of n) = Some n"
proof -
  obtain c cs where cs: "digits_of n = c # cs"
    using digits_of_nonempty [of n] by (cases "digits_of n") auto
  have all: "is_digit c" "list_all is_digit cs"
    using digits_of_all_digits [of n] by (simp_all add: cs)
  have "foldl (\<lambda>a c. a * 10 + digit_val c) (digit_val c) cs = n"
    using foldl_digits_of [of n] by (simp add: cs)
  with all show ?thesis
    by (simp add: parse_decimal_def cs parse_digits_all_digits)
qed

lemma is_digit_not_space: "is_digit c \<Longrightarrow> \<not> is_space c"
  by (auto simp: is_digit_def is_space_def)

lemma is_digit_not_sign: "is_digit c \<Longrightarrow> c \<noteq> CHR ''-'' \<and> c \<noteq> CHR ''+''"
  by (auto simp: is_digit_def)

lemma strip_keeps_head:
  assumes "\<not> is_space c"
  shows "\<exists>ys. strip (c # xs) = c # ys"
proof -
  have "dropWhile is_space (rev xs @ [c]) =
      (if \<forall>x \<in> set (rev xs). is_space x then [c] else dropWhile is_space (rev xs) @ [c])"
    using assms by (simp add: dropWhile_append)
  then obtain zs where "dropWhile is_space (rev xs @ [c]) = zs @ [c]"
    by (metis append_Nil)
  with assms show ?thesis by (simp add: strip_def)
qed

lemma strip_no_space:
  assumes "xs \<noteq> []" "\<not> is_space (hd xs)" "\<not> is_space (last xs)"
  shows "strip xs = xs"
proof -
  have "dropWhile is_space xs = xs"
    using assms by (simp add: dropWhile_eq_self_iff)
  moreover have "dropWhile is_space (rev xs) = rev xs"
    using assms by (simp add: dropWhile_eq_self_iff hd_rev)
  ultimately show ?thesis by (simp add: strip_def)
qed

lemma strip_digits_of: "strip (digits_of n) = digits_of n"
proof (rule strip_no_space)
  show "digits_of n \<noteq> []" by (rule digits_of_nonempty)
  have "\<forall>c \<in> set (digits_of n). \<not> is_space c"
    using digits_of_all_digits [of n] by (auto simp: list_all_iff is_digit_not_space)
  then show "\<not> is_space (hd (digits_of n))" "\<not> is_space (last (digits_of n))"
    using digits_of_nonempty [of n] by simp_all
qed

lemma strip_minus_digits_of: "strip (CHR ''-'' # digits_of n) = CHR ''-'' # digits_of n"
proof (rule strip_no_space)
  show "CHR ''-'' # digits_of n \<noteq> []" by simp
  show "\<not> is_space (hd (CHR ''-'' # digits_of n))" by (simp add: is_space_def)
  have "\<forall>c \<in> set (digits_of n). \<not> is_space c"
    using digits_of_all_digits [of n] by (auto simp: list_all_iff is_digit_not_space)
  then show "\<not> is_space (last (CHR ''-'' # digits_of n))"
    using digits_of_nonempty [of n] by simp
qed

lemma py_int_str_int: "py_int (str_int i) = Inr i"
proof (cases "i < 0")
  case True
  then show ?thesis
    by (simp add: py_int_def str_int_def strip_minus_digits_of parse_decimal_digits_of)
next
  case False
  obtain c cs where cs: "digits_of (nat i) = c # cs"
    using digits_of_nonempty [of "nat i"] by (cases "digits_of (nat i)") auto
  have "is_digit c"
    using digits_of_all_digits [of "nat i"] by (simp add: cs)
  then have sign: "c \<noteq> CHR ''-''" "c \<noteq> CHR ''+''"
    using is_digit_not_sign by blast+
  have "strip (c # cs) = c # cs" "parse_decimal (c # cs) = Some (nat i)"
    using strip_digits_of [of "nat i"] parse_decimal_digits_of [of "nat i"]
    by (simp_all add: cs)
  with False sign show ?thesis
    by (simp add: py_int_def str_int_def cs)
qed

lemma ints_of_map_str_int: "ints_of (map str_int xs) = Inr xs"
  by (induction xs) (simp_all add: py_int_str_int)


lemma split_on_nonempty: "split_on sep s \<noteq> []"
  by (induction s) auto

lemma split_on_no_sep: "sep \<notin> set x \<Longrightarrow> split_on sep x = [x]"
  by (induction x) auto

lemma split_on_append_sep:
  "sep \<notin> set x \<Longrightarrow> split_on sep (x @ sep # rest) = x # split_on sep rest"
  by (induction x) auto

lemma split_on_join:
  "xs \<noteq> [] \<Longrightarrow> \<forall>x \<in> set xs. sep \<notin> set x \<Longrightarrow> split_on sep (join [sep] xs) = xs"
proof (induction "[sep]" xs rule: join.induct)
  case 1
  then show ?case by simp
next
  case (2 x)
  then show ?case by (simp add: split_on_no_sep)
next
  case (3 x y ys)
  then show ?case by (simp add: split_on_append_sep)
qed

lemma partition_on_append_sep:
  "sep \<notin> set a \<Longrightarrow> partition_on sep (a @ sep # b) = (a, [sep], b)"
  by (induction a) auto

lemma set_join: "set (join sep xs) \<subseteq> set sep \<union> \<Union> (set ` set xs)"
  by (induction sep xs rule: join.induct) auto

lemma set_digits_of: "c \<in> set (digits_of n) \<Longrightarrow> is_digit c"
  using digits_of_all_digits [of n] by (simp add: list_all_iff)

lemma sign_notin_digits_of: "CHR ''+'' \<notin> set (digits_of n) \<and> CHR ''-'' \<notin> set (digits_of n)"
  using is_digit_not_sign set_digits_of by blast

lemma plus_notin_str_int: "CHR ''+'' \<notin> set (str_int i)"
  by (simp add: str_int_def sign_notin_digits_of)

lemma minus_notin_str_int: "0 \<le> i \<Longrightarrow> CHR ''-'' \<notin> set (str_int i)"
  by (simp add: str_int_def sign_notin_digits_of)

text \<open>The text of a result after the label \<^verbatim>\<open>tirage=\<close>.\<close>

lemma LotoResult_str_body:
  "date r = None \<Longrightarrow>
   drop (length ''tirage='') (LotoResult_str r) =
     join ''-'' (map str_int (sort (grid r))) @ ''+'' @
     join ''+'' (map str_int (sort (chance r)))"
  by (simp add: LotoResult_str_def)

lemma from_string_body:
  assumes "g \<noteq> []" "c \<noteq> []" "\<forall>i \<in> set g. 0 \<le> i"
  shows "from_string (join ''-'' (map str_int g) @ ''+'' @ join ''+'' (map str_int c)) =
    Inr \<lparr>grid = g, chance = c, date = None\<rparr>"
proof -
  have "set (join ''-'' (map str_int g)) \<subseteq> set ''-'' \<union> \<Union> (set ` set (map str_int g))"
    by (rule set_join)
  then have "CHR ''+'' \<notin> set (join ''-'' (map str_int g))"
    using plus_notin_str_int by auto
  then have part: "partition_on CHR ''+''
      (join ''-'' (map str_int g) @ CHR ''+'' # join ''+'' (map str_int c)) =
      (join ''-'' (map str_int g), ''+'', join ''+'' (map str_int c))"
    by (rule partition_on_append_sep)
  have sg: "split_on CHR ''-'' (join ''-'' (map str_int g)) = map str_int g"
    using assms by (intro split_on_join) (auto simp: minus_notin_str_int)
  have sc: "split_on CHR ''+'' (join ''+'' (map str_int c)) = map str_int c"
    using assms by (intro split_on_join) (auto simp: plus_notin_str_int)
  show ?thesis
    by (simp add: from_string_def part sg sc ints_of_map_str_int)
qed

lemma py_int_letter: "py_int (CHR ''t'' # xs) = Inl ValueError"
proof -
  have "\<not> is_space CHR ''t''" by (simp add: is_space_def)
  then obtain ys where "strip (CHR ''t'' # xs) = CHR ''t'' # ys"
    using strip_keeps_head by blast
  then show ?thesis
    by (simp add: py_int_def parse_decimal_def is_digit_def)
qed

lemma from_string_label: "from_string (CHR ''t'' # xs) = Inl ValueError"
proof -
  obtain b m a where p: "partition_on CHR ''+'' xs = (b, m, a)"
    by (cases "partition_on CHR ''+'' xs") auto
  have "ints_of (split_on CHR ''-'' (CHR ''t'' # b)) = Inl ValueError"
    by (simp add: py_int_letter)
  then show ?thesis
    by (simp add: from_string_def p)
qed

lemma from_string_of_str_raises: "from_string (LotoResult_str r) = Inl ValueError"
  by (simp add: LotoResult_str_def from_string_label)

lemma loto_eq_sorted: "grid p = sort (grid r) \<Longrightarrow> loto_eq p r"
  by (simp add: loto_eq_def sorted_sort_id)

lemma sort_nonempty:
  fixes xs :: "int list"
  shows "xs \<noteq> [] \<Longrightarrow> sort xs \<noteq> []"
  using length_sort [of "\<lambda>x. x" xs] by (metis length_0_conv)

text \<open>
  Claim C3, as the code has it. The text of a result with no date is the label
  \<^verbatim>\<open>tirage=\<close>, the sorted main numbers joined by \<^verbatim>\<open>-\<close>, a \<^verbatim>\<open>+\<close> and the sorted
  chance numbers joined by \<^verbatim>\<open>+\<close>. \<^verbatim>\<open>from_string\<close> does not accept the label: parsing
  \<^verbatim>\<open>str(r)\<close> raises \<^verbatim>\<open>ValueError\<close>, for every result. For a result with no date, with
  at least one main number and one chance number and no negative main number, parsing
  the text that follows the label succeeds and yields the result made of the sorted
  numbers, which is equal to \<^verbatim>\<open>r\<close>.
\<close>

theorem from_string_LotoResult_str_roundtrip:
  "from_string (LotoResult_str r) = Inl ValueError \<and>
   (date r = None \<longrightarrow>
      LotoResult_str r =
        ''tirage='' @ join ''-'' (map str_int (sort (grid r))) @ ''+'' @
        join ''+'' (map str_int (sort (chance r)))) \<and>
   (date r = None \<and> grid r \<noteq> [] \<and> chance r \<noteq> [] \<and> (\<forall>i \<in> set (grid r). 0 \<le> i) \<longrightarrow>
      from_string (drop (length ''tirage='') (LotoResult_str r)) =
        Inr \<lparr>grid = sort (grid r), chance = sort (chance r), date = None\<rparr> \<and>
      LotoResult_eq \<lparr>grid = sort (grid r), chance = sort (chance r), date = None\<rparr>
        (IsLotoResult r) = Inr True)"
proof (intro conjI impI)
  show "from_string (LotoResult_str r) = Inl ValueError"
    by (rule from_string_of_str_raises)
next
  assume "date r = None"
  then show "LotoResult_str r =
        ''tirage='' @ join ''-'' (map str_int (sort (grid r))) @ ''+'' @
        join ''+'' (map str_int (sort (chance r)))"
    by (simp add: LotoResult_str_def)
next
  assume h: "date r = None \<and> grid r \<noteq> [] \<and> chance r \<noteq> [] \<and> (\<forall>i \<in> set (grid r). 0 \<le> i)"
  then show "from_string (drop (length ''tirage='') (LotoResult_str r)) =
      Inr \<lparr>grid = sort (grid r), chance = sort (chance r), date = None\<rparr>"
    by (simp only: LotoResult_str_body) (rule from_string_body, auto dest: sort_nonempty)
next
  have "loto_eq \<lparr>grid = sort (grid r), chance = sort (chance r), date = None\<rparr> r"
    by (rule loto_eq_sorted) simp
  then show "LotoResult_eq \<lparr>grid = sort (grid r), chance = sort (chance r), date = None\<rparr>
        (IsLotoResult r) = Inr True"
    by (simp add: LotoResult_eq_loto_eq)
qed

theorem from_string_LotoResult_str_roundtrip_witness:
  "from_string (LotoResult_str \<lparr>grid = [5, 3, 1, 4, 2], chance = [6], date = None\<rparr>) =
     Inl ValueError \<and>
   LotoResult_str \<lparr>grid = [5, 3, 1, 4, 2], chance = [6], date = None\<rparr> =
     ''tirage=1-2-3-4-5+6'' \<and>
   from_string (drop (length ''tirage='')
      (LotoResult_str \<lparr>grid = [5, 3, 1, 4, 2], chance = [6], date = None\<rparr>)) =
     Inr \<lparr>grid = [1, 2, 3, 4, 5], chance = [6], date = None\<rparr> \<and>
   LotoResult_eq \<lparr>grid = [1, 2, 3, 4, 5], chance = [6], date = None\<rparr>
     (IsLotoResult \<lparr>grid = [5, 3, 1, 4, 2], chance = [6], date = None\<rparr>) = Inr True"
proof -
  let ?r = "\<lparr>grid = [5, 3, 1, 4, 2], chance = [6], date = None\<rparr>"
  have d: "date ?r = None"
    and h: "date ?r = None \<and> grid ?r \<noteq> [] \<and> chance ?r \<noteq> [] \<and> (\<forall>i \<in> set (grid ?r). 0 \<le> i)"
    by simp_all
  from from_string_LotoResult_str_roundtrip [of ?r] d h
  have inst: "from_string (LotoResult_str ?r) = Inl ValueError \<and>
    LotoResult_str ?r =
      ''tirage='' @ join ''-'' (map str_int (sort (grid ?r))) @ ''+'' @
      join ''+'' (map str_int (sort (chance ?r))) \<and>
    from_string (drop (length ''tirage='') (LotoResult_str ?r)) =
      Inr \<lparr>grid = sort (grid ?r), chance = sort (chance ?r), date = None\<rparr> \<and>
    LotoResult_eq \<lparr>grid = sort (grid ?r), chance = sort (chance ?r), date = None\<rparr>
      (IsLotoResult ?r) = Inr True"
    by blast
  have g: "sort (grid ?r) = [1, 2, 3, 4, 5]"
    and c: "sort (chance ?r) = [6]"
    by code_simp+
  have t: "''tirage='' @ join ''-'' (map str_int [1, 2, 3, 4, 5]) @ ''+'' @
      join ''+'' (map str_int [6]) = ''tirage=1-2-3-4-5+6''"
    by code_simp
  from inst [unfolded g c t] show ?thesis .
qed

text \<open>
  The claim as first stated has \<^verbatim>\<open>from_string(str(r))\<close> succeed. For the draw
  \<^verbatim>\<open>1-2-3-4-5+6\<close> the text is \<^verbatim>\<open>tirage=1-2-3-4-5+6\<close>, and parsing it raises.
\<close>

theorem from_string_LotoResult_str_counterexample:
  "LotoResult_str \<lparr>grid = [1, 2, 3, 4, 5], chance = [6], date = None\<rparr> =
     ''tirage=1-2-3-4-5+6'' \<and>
   from_string (LotoResult_str \<lparr>grid = [1, 2, 3, 4, 5], chance = [6], date = None\<rparr>) =
     Inl ValueError"
  by code_simp

section \<open>Extraction of rows\<close>

lemma try_formats_all_fail:
  "\<forall>fmt \<in> set fmts. \<exists>msg. strp d fmt = Inl msg \<Longrightarrow>
   try_formats strp g c d fmts = (map (\<lambda>fmt. Warning (projl (strp d fmt))) fmts, [])"
  by (induction fmts) auto

lemma try_formats_results:
  "try_formats strp g c d fmts = (ws, res) \<Longrightarrow>
   \<forall>r \<in> set res. grid r = g \<and> chance r = c \<and> date r \<noteq> None"
  by (induction fmts arbitrary: ws res) (auto split: sum.splits prod.splits)

lemma LotoFormat_extract_line_date_fails:
  assumes "ints_at line (boule_keys cls) = Inr g"
    and "ints_at line (chance_keys cls) = Inr c"
    and "line (DATE_KEY cls) = Some (Some d)"
    and "\<forall>fmt \<in> set (find_date_format d). \<exists>msg. strp d fmt = Inl msg"
  shows "LotoFormat_extract_line strp cls line =
    (map (\<lambda>fmt. Warning (projl (strp d fmt))) (find_date_format d), Inr [])"
  using assms
  by (simp add: LotoFormat_extract_line_def getitem_def try_formats_all_fail)

lemma LotoFormat_extract_line_Inr:
  assumes "LotoFormat_extract_line strp cls line = (ws, Inr res)"
  shows "\<exists>g c. ints_at line (boule_keys cls) = Inr g \<and> ints_at line (chance_keys cls) = Inr c \<and>
    (\<forall>r \<in> set res. grid r = g \<and> chance r = c \<and> date r \<noteq> None)"
  using assms
  by (auto simp: LotoFormat_extract_line_def split: sum.splits option.splits prod.splits
      dest: try_formats_results)

lemma LotoFormat_extract_line_ints_fail:
  assumes "ints_at line (boule_keys cls @ chance_keys cls) = Inl e"
  shows "LotoFormat_extract_line strp cls line = ([], Inl e)"
proof -
  have app: "ints_at line (ks @ ks') =
      (case ints_at line ks of
         Inl e \<Rightarrow> Inl e
       | Inr is \<Rightarrow> (case ints_at line ks' of Inl e \<Rightarrow> Inl e | Inr is' \<Rightarrow> Inr (is @ is')))"
    for ks ks'
    by (induction ks) (auto split: sum.splits)
  from assms show ?thesis
    by (auto simp: LotoFormat_extract_line_def app split: sum.splits)
qed

lemma second_tirage_numeric:
  assumes "\<forall>i \<in> set is. \<forall>v. line (second_format i) = Some v \<longrightarrow> (\<exists>n. int_cell v = Inr n)"
  shows "second_tirage line is =
    Inr (map (\<lambda>i. projr (int_cell (the (line (second_format i)))))
           (filter (\<lambda>i. line (second_format i) \<noteq> None) is))"
  using assms
proof (induction "is")
  case Nil
  then show ?case by simp
next
  case (Cons i "is")
  then have IH: "second_tirage line is =
    Inr (map (\<lambda>i. projr (int_cell (the (line (second_format i)))))
           (filter (\<lambda>i. line (second_format i) \<noteq> None) is))"
    by simp
  show ?case
  proof (cases "line (second_format i)")
    case None
    then show ?thesis by (simp add: IH)
  next
    case (Some v)
    with Cons.prems obtain n where "int_cell v = Inr n" by auto
    with Some show ?thesis by (simp add: IH)
  qed
qed

lemma second_tirage_absent:
  "\<forall>i \<in> set is. line (second_format i) = None \<Longrightarrow> second_tirage line is = Inr []"
  by (induction "is") auto

lemma second_draw_appended:
  assumes base: "LotoFormat_extract_line strp Loto5Boules line = (ws, Inr res)"
    and present: "\<exists>i \<in> set [1 .. BOULES_NB Loto5Boules]. line (second_format i) \<noteq> None"
    and numeric: "\<forall>i \<in> set [1 .. BOULES_NB Loto5Boules].
      \<forall>v. line (second_format i) = Some v \<longrightarrow> (\<exists>n. int_cell v = Inr n)"
  shows "\<exists>c. ints_at line (chance_keys Loto5Boules) = Inr c \<and>
      (\<forall>r \<in> set res. chance r = c) \<and>
      extract_line strp Loto5Boules line =
        (ws, Inr (res @
          [\<lparr>grid = map (\<lambda>i. projr (int_cell (the (line (second_format i)))))
                    (filter (\<lambda>i. line (second_format i) \<noteq> None)
                       [1 .. BOULES_NB Loto5Boules]),
            chance = c, date = None\<rparr>]))"
proof -
  define seq where "seq = map (\<lambda>i. projr (int_cell (the (line (second_format i)))))
    (filter (\<lambda>i. line (second_format i) \<noteq> None) [1 .. BOULES_NB Loto5Boules])"
  from base obtain g c where
    c: "ints_at line (chance_keys Loto5Boules) = Inr c" "\<forall>r \<in> set res. chance r = c"
    using LotoFormat_extract_line_Inr by blast
  have seq: "second_tirage line [1 .. BOULES_NB Loto5Boules] = Inr seq"
    unfolding seq_def using numeric by (rule second_tirage_numeric)
  have "filter (\<lambda>i. line (second_format i) \<noteq> None) [1 .. BOULES_NB Loto5Boules] \<noteq> []"
    using present by (simp only: filter_empty_conv) blast
  then have "seq \<noteq> []"
    by (simp only: seq_def map_is_Nil_conv not_False_eq_True)
  with base c seq have "extract_line strp Loto5Boules line =
      (ws, Inr (res @ [\<lparr>grid = seq, chance = c, date = None\<rparr>]))"
    by (simp only: extract_line.simps Loto5Boules_extract_line_def) simp
  with c show ?thesis
    unfolding seq_def by blast
qed

lemma iter_rows_Cons_ok:
  assumes "extract_line strp cls line = (ws, Inr res)"
  shows "iter_rows strp cls (line # others) err =
    (ws @ fst (iter_rows strp cls others err),
     map_sum id ((@) res) (snd (iter_rows strp cls others err)))"
  using assms by (simp split: prod.splits sum.splits)

lemma iter_rows_error:
  assumes "\<forall>l \<in> set pre. \<exists>ws res. extract_line strp cls l = (ws, Inr res)"
    and "extract_line strp cls line = (ws, Inl e)"
  shows "\<exists>evs. iter_rows strp cls (pre @ line # post) err = (evs, Inl e)"
  using assms
proof (induction pre)
  case Nil
  then show ?case by simp
next
  case (Cons l pre)
  then obtain evs where "iter_rows strp cls (pre @ line # post) err = (evs, Inl e)"
    by auto
  moreover from Cons.prems obtain ws' res where "extract_line strp cls l = (ws', Inr res)"
    by auto
  ultimately show ?case by simp
qed

lemma first_format_None:
  "first_format LOTO_FORMATS header = None \<longleftrightarrow> (\<forall>cls. \<not> is_one cls (Header header))"
proof -
  have "(\<forall>cls. \<not> is_one cls (Header header)) \<longleftrightarrow>
      \<not> is_one Loto5Boules (Header header) \<and> \<not> is_one Loto6Boules (Header header) \<and>
      \<not> is_one EuroMillion (Header header)"
    by (metis loto_format.exhaust)
  then show ?thesis by (simp add: LOTO_FORMATS_def)
qed

lemma read_loto_file_Opened:
  "read_loto_file strp ''.csv'' (Opened reader) =
     (case read_body strp reader of
        (evs, Inl e) \<Rightarrow> (evs @ [Printed e], Inr [])
      | (evs, Inr res) \<Rightarrow> (evs, Inr res))"
  by (simp add: read_loto_file_def SUPPORTED_FORMATS_def)


lemma range_Loto5Boules: "[1 .. BOULES_NB Loto5Boules] = [1, 2, 3, 4, 5]"
  by code_simp

lemma second_formats:
  "second_format 1 = ''boule_1_second_tirage''"
  "second_format 2 = ''boule_2_second_tirage''"
  "second_format 3 = ''boule_3_second_tirage''"
  "second_format 4 = ''boule_4_second_tirage''"
  "second_format 5 = ''boule_5_second_tirage''"
  by code_simp+

lemma row_second_present:
  "\<exists>i \<in> set [1 .. BOULES_NB Loto5Boules]. row_second (second_format i) \<noteq> None"
  by (simp only: range_Loto5Boules) (simp add: second_formats row_second_def)

lemma row_second_numeric:
  "\<forall>i \<in> set [1 .. BOULES_NB Loto5Boules].
     \<forall>v. row_second (second_format i) = Some v \<longrightarrow> (\<exists>n. int_cell v = Inr n)"
proof -
  have "int_cell (Some ''11'') = Inr 11" "int_cell (Some ''12'') = Inr 12"
    "int_cell (Some ''13'') = Inr 13" "int_cell (Some ''14'') = Inr 14"
    "int_cell (Some ''15'') = Inr 15"
    by code_simp+
  then show ?thesis
    by (simp only: range_Loto5Boules) (simp add: second_formats row_second_def)
qed

lemma row_second_numbers:
  "map (\<lambda>i. projr (int_cell (the (row_second (second_format i)))))
     (filter (\<lambda>i. row_second (second_format i) \<noteq> None) [1 .. BOULES_NB Loto5Boules]) =
   [11, 12, 13, 14, 15]"
proof -
  have "int_cell (Some ''11'') = Inr 11" "int_cell (Some ''12'') = Inr 12"
    "int_cell (Some ''13'') = Inr 13" "int_cell (Some ''14'') = Inr 14"
    "int_cell (Some ''15'') = Inr 15"
    by code_simp+
  then show ?thesis
    by (simp only: range_Loto5Boules) (simp add: second_formats row_second_def)
qed

lemma int_cell_error: "int_cell v = Inl e \<Longrightarrow> e = ValueError \<or> e = TypeError"
  by (auto simp: int_cell_def py_int_def split: option.splits list.splits if_splits)

lemma second_tirage_fails:
  assumes "\<exists>i \<in> set is. \<exists>v e'. line (second_format i) = Some v \<and> int_cell v = Inl e'"
  shows "\<exists>e. second_tirage line is = Inl e \<and> (e = ValueError \<or> e = TypeError)"
  using assms
proof (induction "is")
  case Nil
  then show ?case by simp
next
  case (Cons i "is")
  show ?case
  proof (cases "line (second_format i)")
    case None
    with Cons.prems have
      "\<exists>j \<in> set is. \<exists>v e'. line (second_format j) = Some v \<and> int_cell v = Inl e'"
      by auto
    then obtain e where "second_tirage line is = Inl e" "e = ValueError \<or> e = TypeError"
      using Cons.IH by blast
    with None show ?thesis by simp
  next
    case (Some v)
    show ?thesis
    proof (cases "int_cell v")
      case (Inl e)
      then have "e = ValueError \<or> e = TypeError" by (rule int_cell_error)
      with Some Inl show ?thesis by simp
    next
      case (Inr n)
      with Some Cons.prems have
        "\<exists>j \<in> set is. \<exists>v e'. line (second_format j) = Some v \<and> int_cell v = Inl e'"
        by auto
      then obtain e where "second_tirage line is = Inl e" "e = ValueError \<or> e = TypeError"
        using Cons.IH by blast
      with Some Inr show ?thesis by simp
    qed
  qed
qed

lemma second_draw_raises:
  assumes base: "LotoFormat_extract_line strp Loto5Boules line = (ws, Inr res)"
    and bad: "\<exists>i \<in> set [1 .. BOULES_NB Loto5Boules].
      \<exists>v e'. line (second_format i) = Some v \<and> int_cell v = Inl e'"
  shows "\<exists>e. extract_line strp Loto5Boules line = (ws, Inl e) \<and>
    (e = ValueError \<or> e = TypeError)"
proof -
  from bad obtain e where e: "second_tirage line [1 .. BOULES_NB Loto5Boules] = Inl e"
    "e = ValueError \<or> e = TypeError"
    using second_tirage_fails by blast
  from base e(1) have "extract_line strp Loto5Boules line = (ws, Inl e)"
    by (simp only: extract_line.simps Loto5Boules_extract_line_def) simp
  with e(2) show ?thesis by blast
qed

lemma shared_extraction_raises:
  "LotoFormat_extract_line strp Loto5Boules line = (ws, Inl e) \<Longrightarrow>
   extract_line strp Loto5Boules line = (ws, Inl e)"
  by (simp add: Loto5Boules_extract_line_def)

lemma second_draw_only:
  assumes "ints_at line (boule_keys Loto5Boules) = Inr g"
    and "ints_at line (chance_keys Loto5Boules) = Inr c"
    and "line (DATE_KEY Loto5Boules) = Some (Some d)"
    and "\<forall>fmt \<in> set (find_date_format d). \<exists>msg. strp d fmt = Inl msg"
    and "\<exists>i \<in> set [1 .. BOULES_NB Loto5Boules]. line (second_format i) \<noteq> None"
    and "\<forall>i \<in> set [1 .. BOULES_NB Loto5Boules].
           \<forall>v. line (second_format i) = Some v \<longrightarrow> (\<exists>n. int_cell v = Inr n)"
  shows "extract_line strp Loto5Boules line =
      (map (\<lambda>fmt. Warning (projl (strp d fmt))) (find_date_format d),
       Inr [\<lparr>grid = map (\<lambda>i. projr (int_cell (the (line (second_format i)))))
                     (filter (\<lambda>i. line (second_format i) \<noteq> None)
                        [1 .. BOULES_NB Loto5Boules]),
             chance = c, date = None\<rparr>])"
proof -
  have base: "LotoFormat_extract_line strp Loto5Boules line =
      (map (\<lambda>fmt. Warning (projl (strp d fmt))) (find_date_format d), Inr [])"
    using assms(1-4) by (rule LotoFormat_extract_line_date_fails)
  from second_draw_appended [OF base assms(5,6)]
  obtain c' where "ints_at line (chance_keys Loto5Boules) = Inr c'"
    and "extract_line strp Loto5Boules line =
      (map (\<lambda>fmt. Warning (projl (strp d fmt))) (find_date_format d),
       Inr ([] @ [\<lparr>grid = map (\<lambda>i. projr (int_cell (the (line (second_format i)))))
                     (filter (\<lambda>i. line (second_format i) \<noteq> None)
                        [1 .. BOULES_NB Loto5Boules]),
             chance = c', date = None\<rparr>]))"
    by blast
  with assms(2) show ?thesis
    by (simp only: sum.inject append_Nil)
qed

lemma third_cell_empty:
  assumes "row (second_format 3) = Some (Some [])"
  shows "\<exists>i \<in> set [1 .. BOULES_NB Loto5Boules].
    \<exists>v e'. row (second_format i) = Some v \<and> int_cell v = Inl e'"
proof -
  have "int_cell (Some []) = Inl ValueError"
    by code_simp
  moreover have "3 \<in> set [1 .. BOULES_NB Loto5Boules]"
    by (simp only: range_Loto5Boules) simp
  ultimately show ?thesis
    using assms by blast
qed

text \<open>
  Claim C6, as the code has it. For a row of the five-ball format that has columns
  \<^verbatim>\<open>boule_i_second_tirage\<close>: when the shared extraction returns and every secondary
  cell present holds a number, \<^verbatim>\<open>extract_line\<close> returns the shared extraction's results
  followed by one more result, whose grid is the numbers of the secondary columns
  present, in the order of \<^verbatim>\<open>i\<close>, whose chance is the row's chance numbers (those of
  the primary result) and which has no date. When the shared extraction returns and a
  secondary cell present does not hold a number, \<^verbatim>\<open>int\<close> raises (\<^verbatim>\<open>ValueError\<close>, or
  \<^verbatim>\<open>TypeError\<close> on \<^verbatim>\<open>None\<close>) and \<^verbatim>\<open>extract_line\<close> returns nothing; when the shared
  extraction raises, \<^verbatim>\<open>extract_line\<close> raises the same exception.
\<close>

theorem Loto5Boules_extract_line_second_tirage:
  "(LotoFormat_extract_line strp Loto5Boules line = (ws, Inr res) \<and>
    (\<exists>i \<in> set [1 .. BOULES_NB Loto5Boules]. line (second_format i) \<noteq> None) \<and>
    (\<forall>i \<in> set [1 .. BOULES_NB Loto5Boules].
       \<forall>v. line (second_format i) = Some v \<longrightarrow> (\<exists>n. int_cell v = Inr n)) \<longrightarrow>
      (\<exists>c. ints_at line (chance_keys Loto5Boules) = Inr c \<and>
        (\<forall>r \<in> set res. chance r = c) \<and>
        extract_line strp Loto5Boules line =
          (ws, Inr (res @
            [\<lparr>grid = map (\<lambda>i. projr (int_cell (the (line (second_format i)))))
                      (filter (\<lambda>i. line (second_format i) \<noteq> None)
                         [1 .. BOULES_NB Loto5Boules]),
              chance = c, date = None\<rparr>])))) \<and>
   (LotoFormat_extract_line strp Loto5Boules line = (ws, Inr res) \<and>
    (\<exists>i \<in> set [1 .. BOULES_NB Loto5Boules].
       \<exists>v e'. line (second_format i) = Some v \<and> int_cell v = Inl e') \<longrightarrow>
      (\<exists>e. extract_line strp Loto5Boules line = (ws, Inl e) \<and>
        (e = ValueError \<or> e = TypeError))) \<and>
   (LotoFormat_extract_line strp Loto5Boules line = (ws, Inl e) \<longrightarrow>
      extract_line strp Loto5Boules line = (ws, Inl e))"
proof (intro conjI impI)
  assume h: "LotoFormat_extract_line strp Loto5Boules line = (ws, Inr res) \<and>
    (\<exists>i \<in> set [1 .. BOULES_NB Loto5Boules]. line (second_format i) \<noteq> None) \<and>
    (\<forall>i \<in> set [1 .. BOULES_NB Loto5Boules].
       \<forall>v. line (second_format i) = Some v \<longrightarrow> (\<exists>n. int_cell v = Inr n))"
  show "\<exists>c. ints_at line (chance_keys Loto5Boules) = Inr c \<and>
        (\<forall>r \<in> set res. chance r = c) \<and>
        extract_line strp Loto5Boules line =
          (ws, Inr (res @
            [\<lparr>grid = map (\<lambda>i. projr (int_cell (the (line (second_format i)))))
                      (filter (\<lambda>i. line (second_format i) \<noteq> None)
                         [1 .. BOULES_NB Loto5Boules]),
              chance = c, date = None\<rparr>]))"
    by (rule second_draw_appended) (use h in blast)+
next
  assume h: "LotoFormat_extract_line strp Loto5Boules line = (ws, Inr res) \<and>
    (\<exists>i \<in> set [1 .. BOULES_NB Loto5Boules].
       \<exists>v e'. line (second_format i) = Some v \<and> int_cell v = Inl e')"
  show "\<exists>e. extract_line strp Loto5Boules line = (ws, Inl e) \<and>
        (e = ValueError \<or> e = TypeError)"
    by (rule second_draw_raises) (use h in blast)+
next
  assume "LotoFormat_extract_line strp Loto5Boules line = (ws, Inl e)"
  then show "extract_line strp Loto5Boules line = (ws, Inl e)"
    by (rule shared_extraction_raises)
qed

theorem Loto5Boules_extract_line_second_tirage_witness:
  "extract_line strptime_ymd Loto5Boules row_second =
     ([], Inr [\<lparr>grid = [1, 2, 3, 4, 5], chance = [6],
                 date = Some \<lparr>year = 2020, month = 1, day = 1\<rparr>\<rparr>,
               \<lparr>grid = [11, 12, 13, 14, 15], chance = [6], date = None\<rparr>]) \<and>
   (\<exists>e. extract_line strptime_ymd Loto5Boules row_second_empty_cell = ([], Inl e) \<and>
      (e = ValueError \<or> e = TypeError))"
proof -
  let ?res = "[\<lparr>grid = [1, 2, 3, 4, 5], chance = [6],
                 date = Some \<lparr>year = 2020, month = 1, day = 1\<rparr>\<rparr>]"
  have base: "LotoFormat_extract_line strptime_ymd Loto5Boules row_second = ([], Inr ?res)"
    by code_simp
  have c: "ints_at row_second (chance_keys Loto5Boules) = Inr [6]"
    by code_simp
  from Loto5Boules_extract_line_second_tirage
    [where strp = strptime_ymd and line = row_second and ws = "[]" and res = ?res]
    base row_second_present row_second_numeric
  have "\<exists>c. ints_at row_second (chance_keys Loto5Boules) = Inr c \<and>
      (\<forall>r \<in> set ?res. chance r = c) \<and>
      extract_line strptime_ymd Loto5Boules row_second =
        (([] :: event list), Inr (?res @
          [\<lparr>grid = map (\<lambda>i. projr (int_cell (the (row_second (second_format i)))))
                    (filter (\<lambda>i. row_second (second_format i) \<noteq> None)
                       [1 .. BOULES_NB Loto5Boules]),
            chance = c, date = None\<rparr>]))"
    by blast
  then have first: "extract_line strptime_ymd Loto5Boules row_second =
     ([], Inr [\<lparr>grid = [1, 2, 3, 4, 5], chance = [6],
                 date = Some \<lparr>year = 2020, month = 1, day = 1\<rparr>\<rparr>,
               \<lparr>grid = [11, 12, 13, 14, 15], chance = [6], date = None\<rparr>])"
    by (simp only: c row_second_numbers) simp
  have base': "LotoFormat_extract_line strptime_ymd Loto5Boules row_second_empty_cell =
      ([], Inr ?res)"
    by code_simp
  have "row_second_empty_cell (second_format 3) = Some (Some [])"
    by (simp add: second_formats row_second_empty_cell_def)
  then have bad: "\<exists>i \<in> set [1 .. BOULES_NB Loto5Boules].
      \<exists>v e'. row_second_empty_cell (second_format i) = Some v \<and> int_cell v = Inl e'"
    by (rule third_cell_empty)
  from Loto5Boules_extract_line_second_tirage
    [where strp = strptime_ymd and line = row_second_empty_cell and ws = "[]" and res = ?res]
    base' bad
  have "\<exists>e. extract_line strptime_ymd Loto5Boules row_second_empty_cell = ([], Inl e) \<and>
      (e = ValueError \<or> e = TypeError)"
    by blast
  with first show ?thesis
    by (rule conjI)
qed

text \<open>
  The claim as first stated has \<^verbatim>\<open>extract_line\<close> return the extra result for every row
  with secondary columns. The header with the five secondary columns is claimed by the
  five-ball format; on a row of such a file whose cell \<^verbatim>\<open>boule_3_second_tirage\<close> is
  empty, the shared extraction returns the primary result and \<^verbatim>\<open>extract_line\<close> raises
  \<^verbatim>\<open>ValueError\<close>.
\<close>

theorem Loto5Boules_extract_line_second_tirage_counterexample:
  "first_format LOTO_FORMATS header_5_second = Some Loto5Boules \<and>
   row_second_empty_cell ''boule_3_second_tirage'' = Some (Some []) \<and>
   LotoFormat_extract_line strptime_ymd Loto5Boules row_second_empty_cell =
     ([], Inr [\<lparr>grid = [1, 2, 3, 4, 5], chance = [6],
                 date = Some \<lparr>year = 2020, month = 1, day = 1\<rparr>\<rparr>]) \<and>
   extract_line strptime_ymd Loto5Boules row_second_empty_cell = ([], Inl ValueError)"
  by code_simp

text \<open>
  Claim C10, as the code has it. For a row of the five-ball format that has columns
  \<^verbatim>\<open>boule_i_second_tirage\<close>, whose required main and chance cells hold numbers and whose
  date fails every pattern of \<^verbatim>\<open>find_date_format\<close>, the shared extraction returns no
  result, with one warning for each pattern tried. When every secondary cell present
  holds a number, \<^verbatim>\<open>extract_line\<close> returns exactly one result, the second draw, without
  a date. When a secondary cell present does not hold a number, \<^verbatim>\<open>int\<close> raises after the
  warnings and \<^verbatim>\<open>extract_line\<close> returns nothing.
\<close>

theorem Loto5Boules_extract_line_second_only:
  "(ints_at line (boule_keys Loto5Boules) = Inr g \<and>
    ints_at line (chance_keys Loto5Boules) = Inr c \<and>
    line (DATE_KEY Loto5Boules) = Some (Some d) \<and>
    (\<forall>fmt \<in> set (find_date_format d). \<exists>msg. strp d fmt = Inl msg) \<and>
    (\<exists>i \<in> set [1 .. BOULES_NB Loto5Boules]. line (second_format i) \<noteq> None) \<and>
    (\<forall>i \<in> set [1 .. BOULES_NB Loto5Boules].
       \<forall>v. line (second_format i) = Some v \<longrightarrow> (\<exists>n. int_cell v = Inr n)) \<longrightarrow>
      LotoFormat_extract_line strp Loto5Boules line =
        (map (\<lambda>fmt. Warning (projl (strp d fmt))) (find_date_format d), Inr []) \<and>
      extract_line strp Loto5Boules line =
        (map (\<lambda>fmt. Warning (projl (strp d fmt))) (find_date_format d),
         Inr [\<lparr>grid = map (\<lambda>i. projr (int_cell (the (line (second_format i)))))
                       (filter (\<lambda>i. line (second_format i) \<noteq> None)
                          [1 .. BOULES_NB Loto5Boules]),
               chance = c, date = None\<rparr>])) \<and>
   (ints_at line (boule_keys Loto5Boules) = Inr g \<and>
    ints_at line (chance_keys Loto5Boules) = Inr c \<and>
    line (DATE_KEY Loto5Boules) = Some (Some d) \<and>
    (\<forall>fmt \<in> set (find_date_format d). \<exists>msg. strp d fmt = Inl msg) \<and>
    (\<exists>i \<in> set [1 .. BOULES_NB Loto5Boules].
       \<exists>v e'. line (second_format i) = Some v \<and> int_cell v = Inl e') \<longrightarrow>
      LotoFormat_extract_line strp Loto5Boules line =
        (map (\<lambda>fmt. Warning (projl (strp d fmt))) (find_date_format d), Inr []) \<and>
      (\<exists>e. extract_line strp Loto5Boules line =
          (map (\<lambda>fmt. Warning (projl (strp d fmt))) (find_date_format d), Inl e) \<and>
        (e = ValueError \<or> e = TypeError)))"
proof (intro conjI impI)
  assume h: "ints_at line (boule_keys Loto5Boules) = Inr g \<and>
    ints_at line (chance_keys Loto5Boules) = Inr c \<and>
    line (DATE_KEY Loto5Boules) = Some (Some d) \<and>
    (\<forall>fmt \<in> set (find_date_format d). \<exists>msg. strp d fmt = Inl msg) \<and>
    (\<exists>i \<in> set [1 .. BOULES_NB Loto5Boules]. line (second_format i) \<noteq> None) \<and>
    (\<forall>i \<in> set [1 .. BOULES_NB Loto5Boules].
       \<forall>v. line (second_format i) = Some v \<longrightarrow> (\<exists>n. int_cell v = Inr n))"
  show "LotoFormat_extract_line strp Loto5Boules line =
        (map (\<lambda>fmt. Warning (projl (strp d fmt))) (find_date_format d), Inr [])"
    by (rule LotoFormat_extract_line_date_fails) (use h in blast)+
  show "extract_line strp Loto5Boules line =
        (map (\<lambda>fmt. Warning (projl (strp d fmt))) (find_date_format d),
         Inr [\<lparr>grid = map (\<lambda>i. projr (int_cell (the (line (second_format i)))))
                       (filter (\<lambda>i. line (second_format i) \<noteq> None)
                          [1 .. BOULES_NB Loto5Boules]),
               chance = c, date = None\<rparr>])"
    by (rule second_draw_only) (use h in blast)+
next
  assume h: "ints_at line (boule_keys Loto5Boules) = Inr g \<and>
    ints_at line (chance_keys Loto5Boules) = Inr c \<and>
    line (DATE_KEY Loto5Boules) = Some (Some d) \<and>
    (\<forall>fmt \<in> set (find_date_format d). \<exists>msg. strp d fmt = Inl msg) \<and>
    (\<exists>i \<in> set [1 .. BOULES_NB Loto5Boules].
       \<exists>v e'. line (second_format i) = Some v \<and> int_cell v = Inl e')"
  show base: "LotoFormat_extract_line strp Loto5Boules line =
        (map (\<lambda>fmt. Warning (projl (strp d fmt))) (find_date_format d), Inr [])"
    by (rule LotoFormat_extract_line_date_fails) (use h in blast)+
  show "\<exists>e. extract_line strp Loto5Boules line =
          (map (\<lambda>fmt. Warning (projl (strp d fmt))) (find_date_format d), Inl e) \<and>
        (e = ValueError \<or> e = TypeError)"
    by (rule second_draw_raises [OF base]) (use h in blast)
qed

lemma row_second_bad_date_cells:
  "ints_at row_second_bad_date (boule_keys Loto5Boules) = Inr [1, 2, 3, 4, 5]"
  "ints_at row_second_bad_date (chance_keys Loto5Boules) = Inr [6]"
  "ints_at row_second_bad_date_empty_cell (boule_keys Loto5Boules) = Inr [1, 2, 3, 4, 5]"
  "ints_at row_second_bad_date_empty_cell (chance_keys Loto5Boules) = Inr [6]"
  by code_simp+

lemma row_second_bad_date_date:
  "row_second_bad_date (DATE_KEY Loto5Boules) = Some (Some ''unknown'')"
  "row_second_bad_date_empty_cell (DATE_KEY Loto5Boules) = Some (Some ''unknown'')"
  by (simp_all add: row_second_bad_date_empty_cell_def row_second_bad_date_def DATE_KEY_def)

lemma unknown_date:
  "find_date_format ''unknown'' = [''%Y%m%d'']"
  "strptime_ymd ''unknown'' ''%Y%m%d'' = Inl ''time data does not match format''"
  "\<forall>fmt \<in> set (find_date_format ''unknown''). \<exists>msg. strptime_ymd ''unknown'' fmt = Inl msg"
  by (simp_all add: find_date_format_def strptime_ymd_def)

lemma unknown_date_warnings:
  "map (\<lambda>fmt. Warning (projl (strptime_ymd ''unknown'' fmt))) (find_date_format ''unknown'') =
     [Warning ''time data does not match format'']"
  by (simp add: unknown_date)

lemma row_second_bad_date_second:
  "\<exists>i \<in> set [1 .. BOULES_NB Loto5Boules]. row_second_bad_date (second_format i) \<noteq> None"
  "\<forall>i \<in> set [1 .. BOULES_NB Loto5Boules].
      \<forall>v. row_second_bad_date (second_format i) = Some v \<longrightarrow> (\<exists>n. int_cell v = Inr n)"
  "map (\<lambda>i. projr (int_cell (the (row_second_bad_date (second_format i)))))
     (filter (\<lambda>i. row_second_bad_date (second_format i) \<noteq> None)
        [1 .. BOULES_NB Loto5Boules]) = [11, 12, 13, 14, 15]"
proof -
  have same: "row_second_bad_date (second_format i) = row_second (second_format i)"
    if "i \<in> set [1 .. BOULES_NB Loto5Boules]" for i
    using that
    by (simp only: range_Loto5Boules) (auto simp: second_formats row_second_bad_date_def)
  show "\<exists>i \<in> set [1 .. BOULES_NB Loto5Boules].
      row_second_bad_date (second_format i) \<noteq> None"
    using row_second_present same by auto
  show "\<forall>i \<in> set [1 .. BOULES_NB Loto5Boules].
      \<forall>v. row_second_bad_date (second_format i) = Some v \<longrightarrow> (\<exists>n. int_cell v = Inr n)"
    using row_second_numeric same by auto
  show "map (\<lambda>i. projr (int_cell (the (row_second_bad_date (second_format i)))))
     (filter (\<lambda>i. row_second_bad_date (second_format i) \<noteq> None)
        [1 .. BOULES_NB Loto5Boules]) = [11, 12, 13, 14, 15]"
    using row_second_numbers same
    by (metis (mono_tags, lifting) filter_cong map_eq_conv mem_Collect_eq set_filter)
qed

lemma row_second_bad_date_empty_cell_bad:
  "\<exists>i \<in> set [1 .. BOULES_NB Loto5Boules].
     \<exists>v e'. row_second_bad_date_empty_cell (second_format i) = Some v \<and> int_cell v = Inl e'"
proof (rule third_cell_empty)
  show "row_second_bad_date_empty_cell (second_format 3) = Some (Some [])"
    by (simp add: second_formats row_second_bad_date_empty_cell_def)
qed

theorem Loto5Boules_extract_line_second_only_witness:
  "LotoFormat_extract_line strptime_ymd Loto5Boules row_second_bad_date =
     ([Warning ''time data does not match format''], Inr []) \<and>
   extract_line strptime_ymd Loto5Boules row_second_bad_date =
     ([Warning ''time data does not match format''],
      Inr [\<lparr>grid = [11, 12, 13, 14, 15], chance = [6], date = None\<rparr>]) \<and>
   (\<exists>e. extract_line strptime_ymd Loto5Boules row_second_bad_date_empty_cell =
       ([Warning ''time data does not match format''], Inl e) \<and>
      (e = ValueError \<or> e = TypeError))"
proof -
  from Loto5Boules_extract_line_second_only
    [where strp = strptime_ymd and line = row_second_bad_date and d = "''unknown''"
      and g = "[1, 2, 3, 4, 5]" and c = "[6]"]
    row_second_bad_date_cells(1,2) row_second_bad_date_date(1) unknown_date(3)
    row_second_bad_date_second(1,2)
  have "LotoFormat_extract_line strptime_ymd Loto5Boules row_second_bad_date =
      (map (\<lambda>fmt. Warning (projl (strptime_ymd ''unknown'' fmt))) (find_date_format ''unknown''),
       Inr []) \<and>
    extract_line strptime_ymd Loto5Boules row_second_bad_date =
      (map (\<lambda>fmt. Warning (projl (strptime_ymd ''unknown'' fmt))) (find_date_format ''unknown''),
       Inr [\<lparr>grid = map (\<lambda>i. projr (int_cell (the (row_second_bad_date (second_format i)))))
                     (filter (\<lambda>i. row_second_bad_date (second_format i) \<noteq> None)
                        [1 .. BOULES_NB Loto5Boules]),
             chance = [6], date = None\<rparr>])"
    by blast
  note first = this [unfolded unknown_date_warnings row_second_bad_date_second(3)]
  from Loto5Boules_extract_line_second_only
    [where strp = strptime_ymd and line = row_second_bad_date_empty_cell and d = "''unknown''"
      and g = "[1, 2, 3, 4, 5]" and c = "[6]"]
    row_second_bad_date_cells(3,4) row_second_bad_date_date(2) unknown_date(3)
    row_second_bad_date_empty_cell_bad
  have "\<exists>e. extract_line strptime_ymd Loto5Boules row_second_bad_date_empty_cell =
      (map (\<lambda>fmt. Warning (projl (strptime_ymd ''unknown'' fmt))) (find_date_format ''unknown''),
       Inl e) \<and> (e = ValueError \<or> e = TypeError)"
    by blast
  note second = this [unfolded unknown_date_warnings]
  from first second show ?thesis
    by blast
qed

text \<open>
  The claim as first stated has the second draw produced for every row with secondary
  columns whose date fails. On a row whose date is \<^verbatim>\<open>unknown\<close> and whose cell
  \<^verbatim>\<open>boule_3_second_tirage\<close> is empty, the shared extraction warns and returns no result,
  and \<^verbatim>\<open>extract_line\<close> raises \<^verbatim>\<open>ValueError\<close>: the row yields no second draw.
\<close>

theorem Loto5Boules_extract_line_second_only_counterexample:
  "row_second_bad_date_empty_cell ''date_de_tirage'' = Some (Some ''unknown'') \<and>
   row_second_bad_date_empty_cell ''boule_3_second_tirage'' = Some (Some []) \<and>
   LotoFormat_extract_line strptime_ymd Loto5Boules row_second_bad_date_empty_cell =
     ([Warning ''time data does not match format''], Inr []) \<and>
   extract_line strptime_ymd Loto5Boules row_second_bad_date_empty_cell =
     ([Warning ''time data does not match format''], Inl ValueError)"
  by code_simp

section \<open>Errors of rows and files\<close>

lemma extract_line_date_fails:
  assumes "ints_at line (boule_keys cls) = Inr g"
    and "ints_at line (chance_keys cls) = Inr c"
    and "line (DATE_KEY cls) = Some (Some d)"
    and "\<forall>fmt \<in> set (find_date_format d). \<exists>msg. strp d fmt = Inl msg"
    and "cls = Loto5Boules \<longrightarrow>
      (\<forall>i \<in> set [1 .. BOULES_NB cls]. line (second_format i) = None)"
  shows "extract_line strp cls line =
    (map (\<lambda>fmt. Warning (projl (strp d fmt))) (find_date_format d), Inr [])"
proof -
  have base: "LotoFormat_extract_line strp cls line =
      (map (\<lambda>fmt. Warning (projl (strp d fmt))) (find_date_format d), Inr [])"
    using assms(1-4) by (rule LotoFormat_extract_line_date_fails)
  show ?thesis
  proof (cases cls)
    case Loto5Boules
    with assms(5) have "second_tirage line [1 .. BOULES_NB Loto5Boules] = Inr []"
      by (intro second_tirage_absent) simp
    with base Loto5Boules show ?thesis
      by (simp only: extract_line.simps Loto5Boules_extract_line_def) simp
  next
    case Loto6Boules
    with base show ?thesis by simp
  next
    case EuroMillion
    with base show ?thesis by simp
  qed
qed

lemma extract_line_ints_fail:
  assumes "ints_at line (boule_keys cls @ chance_keys cls) = Inl e"
  shows "extract_line strp cls line = ([], Inl e)"
proof -
  have "LotoFormat_extract_line strp cls line = ([], Inl e)"
    using assms by (rule LotoFormat_extract_line_ints_fail)
  then show ?thesis
    by (cases cls) (simp_all add: Loto5Boules_extract_line_def)
qed

lemma iter_rows_Cons_empty:
  assumes "extract_line strp cls line = (ws, Inr [])"
  shows "iter_rows strp cls (line # others) err =
    (ws @ fst (iter_rows strp cls others err), snd (iter_rows strp cls others err))"
  using assms by (simp split: prod.splits sum.splits)

lemma iter_rows_reader_error:
  assumes "\<forall>l \<in> set ls. \<exists>ws res. extract_line strp cls l = (ws, Inr res)"
  shows "\<exists>evs. iter_rows strp cls ls (Some e) = (evs, Inl e)"
  using assms
proof (induction ls)
  case Nil
  then show ?case by simp
next
  case (Cons l ls)
  then obtain evs where "iter_rows strp cls ls (Some e) = (evs, Inl e)"
    by auto
  moreover from Cons.prems obtain ws' res where "extract_line strp cls l = (ws', Inr res)"
    by auto
  ultimately show ?case by simp
qed

lemma read_loto_file_rows_fail:
  assumes "fieldnames reader = Inr (Some header)"
    and "first_format LOTO_FORMATS header = Some cls"
    and "iter_rows strp cls (rows reader) (rows_error reader) = (evs, Inl e)"
  shows "read_loto_file strp ''.csv'' (Opened reader) = (evs @ [Printed e], Inr [])"
  using assms by (simp add: read_loto_file_Opened read_body_def)

lemma row_plain_extracts:
  "extract_line strptime_ymd Loto5Boules row_plain =
     ([], Inr [\<lparr>grid = [1, 2, 3, 4, 5], chance = [6],
                 date = Some \<lparr>year = 2020, month = 1, day = 1\<rparr>\<rparr>])"
  by code_simp

lemma header_5_format: "first_format LOTO_FORMATS header_5 = Some Loto5Boules"
  by code_simp

lemma iter_rows_some_error:
  assumes "\<exists>l \<in> set ls. \<exists>ws e. extract_line strp cls l = (ws, Inl e)"
  shows "\<exists>evs e. iter_rows strp cls ls err = (evs, Inl e)"
  using assms
proof (induction ls)
  case Nil
  then show ?case by simp
next
  case (Cons l ls)
  obtain ws r where l: "extract_line strp cls l = (ws, r)"
    by (cases "extract_line strp cls l")
  show ?case
  proof (cases r)
    case (Inl e)
    with l show ?thesis by simp
  next
    case (Inr res)
    with l Cons.prems have "\<exists>l \<in> set ls. \<exists>ws e. extract_line strp cls l = (ws, Inl e)"
      by auto
    then obtain evs e where "iter_rows strp cls ls err = (evs, Inl e)"
      using Cons.IH by blast
    with l Inr show ?thesis by simp
  qed
qed


lemma read_loto_file_some_row_raises:
  assumes "fieldnames reader = Inr (Some header)"
    and "first_format LOTO_FORMATS header = Some cls"
    and "\<exists>l \<in> set (rows reader). \<exists>ws' e'. extract_line strp cls l = (ws', Inl e')"
  shows "\<exists>evs e'. read_loto_file strp ''.csv'' (Opened reader) = (evs @ [Printed e'], Inr [])"
proof -
  from assms(3) obtain evs e' where
    "iter_rows strp cls (rows reader) (rows_error reader) = (evs, Inl e')"
    using iter_rows_some_error [of "rows reader" strp cls "rows_error reader"] by blast
  with assms(1,2) have
    "read_loto_file strp ''.csv'' (Opened reader) = (evs @ [Printed e'], Inr [])"
    by (rule read_loto_file_rows_fail)
  then show ?thesis by blast
qed


lemma iter_rows_Cons_one:
  assumes "extract_line strp cls line = (ws, Inr [r])"
  shows "iter_rows strp cls (line # others) err =
    (ws @ fst (iter_rows strp cls others err),
     case snd (iter_rows strp cls others err) of
       Inl e \<Rightarrow> Inl e
     | Inr rest \<Rightarrow> Inr (r # rest))"
  using assms by (simp split: prod.splits sum.splits)

text \<open>
  Claim C4, as the code has it. A date that fails every pattern of
  \<^verbatim>\<open>find_date_format\<close>, on a row whose required main and chance cells hold numbers,
  is recoverable at the level of the row: each failed pattern is reported by a warning
  and the shared extraction yields no result. A row of the six-ball or EuroMillion
  format, or a row of the five-ball format without a column of a second draw, then
  yields no result; a row of the five-ball format whose cells of the second draw all
  hold numbers yields the second draw alone; in both cases the iteration goes on with
  the next row. A value that \<^verbatim>\<open>int\<close> rejects is not recoverable at the level of the
  row, be it at a required main or chance key (raised before the date is tried) or in
  a cell of the second draw of a five-ball row (raised after the warnings of the
  date): the exception leaves \<^verbatim>\<open>extract_line\<close> and the iteration, the handler of
  \<^verbatim>\<open>read_loto_file\<close> prints it, and the whole file yields the empty list. A file in
  which some row raises yields the empty list, whatever its other rows.
\<close>

theorem row_level_errors:
  "(fieldnames reader = Inr (Some header) \<and> first_format LOTO_FORMATS header = Some cls \<and>
    (\<exists>l \<in> set (rows reader). \<exists>ws' e'. extract_line strp cls l = (ws', Inl e')) \<longrightarrow>
      (\<exists>evs e'. read_loto_file strp ''.csv'' (Opened reader) =
         (evs @ [Printed e'], Inr []))) \<and>
   (ints_at line (boule_keys cls) = Inr g \<and> ints_at line (chance_keys cls) = Inr c \<and>
    line (DATE_KEY cls) = Some (Some d) \<and>
    (\<forall>fmt \<in> set (find_date_format d). \<exists>msg. strp d fmt = Inl msg) \<longrightarrow>
      LotoFormat_extract_line strp cls line =
        (map (\<lambda>fmt. Warning (projl (strp d fmt))) (find_date_format d), Inr []) \<and>
      ((cls = Loto5Boules \<longrightarrow>
          (\<forall>i \<in> set [1 .. BOULES_NB cls]. line (second_format i) = None)) \<longrightarrow>
         extract_line strp cls line =
           (map (\<lambda>fmt. Warning (projl (strp d fmt))) (find_date_format d), Inr []) \<and>
         iter_rows strp cls (line # others) err =
           (map (\<lambda>fmt. Warning (projl (strp d fmt))) (find_date_format d) @
              fst (iter_rows strp cls others err),
            snd (iter_rows strp cls others err))) \<and>
      (cls = Loto5Boules \<and>
       (\<exists>i \<in> set [1 .. BOULES_NB Loto5Boules]. line (second_format i) \<noteq> None) \<and>
       (\<forall>i \<in> set [1 .. BOULES_NB Loto5Boules].
          \<forall>v. line (second_format i) = Some v \<longrightarrow> (\<exists>n. int_cell v = Inr n)) \<longrightarrow>
         extract_line strp cls line =
           (map (\<lambda>fmt. Warning (projl (strp d fmt))) (find_date_format d),
            Inr [\<lparr>grid = map (\<lambda>i. projr (int_cell (the (line (second_format i)))))
                          (filter (\<lambda>i. line (second_format i) \<noteq> None)
                             [1 .. BOULES_NB Loto5Boules]),
                  chance = c, date = None\<rparr>]) \<and>
         iter_rows strp cls (line # others) err =
           (map (\<lambda>fmt. Warning (projl (strp d fmt))) (find_date_format d) @
              fst (iter_rows strp cls others err),
            case snd (iter_rows strp cls others err) of
              Inl e \<Rightarrow> Inl e
            | Inr rest \<Rightarrow>
                Inr (\<lparr>grid = map (\<lambda>i. projr (int_cell (the (line (second_format i)))))
                              (filter (\<lambda>i. line (second_format i) \<noteq> None)
                                 [1 .. BOULES_NB Loto5Boules]),
                      chance = c, date = None\<rparr> # rest)))) \<and>
   (LotoFormat_extract_line strp Loto5Boules line' = (ws, Inr res) \<and>
    (\<exists>i \<in> set [1 .. BOULES_NB Loto5Boules].
       \<exists>v e'. line' (second_format i) = Some v \<and> int_cell v = Inl e') \<longrightarrow>
      (\<exists>e. extract_line strp Loto5Boules line' = (ws, Inl e) \<and>
        (e = ValueError \<or> e = TypeError))) \<and>
   (ints_at line' (boule_keys cls @ chance_keys cls) = Inl e \<longrightarrow>
      extract_line strp cls line' = ([], Inl e)) \<and>
   (extract_line strp cls line' = (ws, Inl e) \<and>
    fieldnames reader = Inr (Some header) \<and> first_format LOTO_FORMATS header = Some cls \<and>
    rows reader = pre @ line' # post \<and>
    (\<forall>l \<in> set pre. \<exists>ws res. extract_line strp cls l = (ws, Inr res)) \<longrightarrow>
      (\<exists>evs. read_loto_file strp ''.csv'' (Opened reader) = (evs @ [Printed e], Inr [])))"
proof (intro conjI impI)
  assume h: "fieldnames reader = Inr (Some header) \<and>
    first_format LOTO_FORMATS header = Some cls \<and>
    (\<exists>l \<in> set (rows reader). \<exists>ws' e'. extract_line strp cls l = (ws', Inl e'))"
  show "\<exists>evs e'. read_loto_file strp ''.csv'' (Opened reader) =
      (evs @ [Printed e'], Inr [])"
    by (rule read_loto_file_some_row_raises) (use h in blast)+
next
  assume h: "ints_at line (boule_keys cls) = Inr g \<and> ints_at line (chance_keys cls) = Inr c \<and>
    line (DATE_KEY cls) = Some (Some d) \<and>
    (\<forall>fmt \<in> set (find_date_format d). \<exists>msg. strp d fmt = Inl msg)"
  show "LotoFormat_extract_line strp cls line =
        (map (\<lambda>fmt. Warning (projl (strp d fmt))) (find_date_format d), Inr [])"
    by (rule LotoFormat_extract_line_date_fails) (use h in blast)+
  {
    assume none: "cls = Loto5Boules \<longrightarrow>
      (\<forall>i \<in> set [1 .. BOULES_NB cls]. line (second_format i) = None)"
    show ex: "extract_line strp cls line =
        (map (\<lambda>fmt. Warning (projl (strp d fmt))) (find_date_format d), Inr [])"
      by (rule extract_line_date_fails) (use h none in blast)+
    show "iter_rows strp cls (line # others) err =
        (map (\<lambda>fmt. Warning (projl (strp d fmt))) (find_date_format d) @
           fst (iter_rows strp cls others err),
         snd (iter_rows strp cls others err))"
      using ex by (rule iter_rows_Cons_empty)
  }
  {
    assume five: "cls = Loto5Boules \<and>
       (\<exists>i \<in> set [1 .. BOULES_NB Loto5Boules]. line (second_format i) \<noteq> None) \<and>
       (\<forall>i \<in> set [1 .. BOULES_NB Loto5Boules].
          \<forall>v. line (second_format i) = Some v \<longrightarrow> (\<exists>n. int_cell v = Inr n))"
    have "extract_line strp Loto5Boules line =
        (map (\<lambda>fmt. Warning (projl (strp d fmt))) (find_date_format d),
         Inr [\<lparr>grid = map (\<lambda>i. projr (int_cell (the (line (second_format i)))))
                       (filter (\<lambda>i. line (second_format i) \<noteq> None)
                          [1 .. BOULES_NB Loto5Boules]),
               chance = c, date = None\<rparr>])"
      by (rule second_draw_only) (use h five in blast)+
    with five show ex: "extract_line strp cls line =
        (map (\<lambda>fmt. Warning (projl (strp d fmt))) (find_date_format d),
         Inr [\<lparr>grid = map (\<lambda>i. projr (int_cell (the (line (second_format i)))))
                       (filter (\<lambda>i. line (second_format i) \<noteq> None)
                          [1 .. BOULES_NB Loto5Boules]),
               chance = c, date = None\<rparr>])"
      by blast
    show "iter_rows strp cls (line # others) err =
           (map (\<lambda>fmt. Warning (projl (strp d fmt))) (find_date_format d) @
              fst (iter_rows strp cls others err),
            case snd (iter_rows strp cls others err) of
              Inl e \<Rightarrow> Inl e
            | Inr rest \<Rightarrow>
                Inr (\<lparr>grid = map (\<lambda>i. projr (int_cell (the (line (second_format i)))))
                              (filter (\<lambda>i. line (second_format i) \<noteq> None)
                                 [1 .. BOULES_NB Loto5Boules]),
                      chance = c, date = None\<rparr> # rest))"
      using ex by (rule iter_rows_Cons_one)
  }
next
  assume h: "LotoFormat_extract_line strp Loto5Boules line' = (ws, Inr res) \<and>
    (\<exists>i \<in> set [1 .. BOULES_NB Loto5Boules].
       \<exists>v e'. line' (second_format i) = Some v \<and> int_cell v = Inl e')"
  show "\<exists>e. extract_line strp Loto5Boules line' = (ws, Inl e) \<and>
        (e = ValueError \<or> e = TypeError)"
    by (rule second_draw_raises) (use h in blast)+
next
  assume "ints_at line' (boule_keys cls @ chance_keys cls) = Inl e"
  then show "extract_line strp cls line' = ([], Inl e)"
    by (rule extract_line_ints_fail)
next
  assume h: "extract_line strp cls line' = (ws, Inl e) \<and>
    fieldnames reader = Inr (Some header) \<and> first_format LOTO_FORMATS header = Some cls \<and>
    rows reader = pre @ line' # post \<and>
    (\<forall>l \<in> set pre. \<exists>ws res. extract_line strp cls l = (ws, Inr res))"
  then obtain evs where
    "iter_rows strp cls (rows reader) (rows_error reader) = (evs, Inl e)"
    using iter_rows_error [of pre strp cls line' ws e post "rows_error reader"] by auto
  with h have "read_loto_file strp ''.csv'' (Opened reader) = (evs @ [Printed e], Inr [])"
    by (intro read_loto_file_rows_fail) blast+
  then show "\<exists>evs. read_loto_file strp ''.csv'' (Opened reader) = (evs @ [Printed e], Inr [])"
    by blast
qed

lemma header_5_second_format: "first_format LOTO_FORMATS header_5_second = Some Loto5Boules"
  by code_simp

lemma row_bad_date_facts:
  "ints_at row_bad_date (boule_keys Loto5Boules) = Inr [1, 2, 3, 4, 5]"
  "ints_at row_bad_date (chance_keys Loto5Boules) = Inr [6]"
  "row_bad_date (DATE_KEY Loto5Boules) = Some (Some ''unknown'')"
  "Loto5Boules = Loto5Boules \<longrightarrow>
     (\<forall>i \<in> set [1 .. BOULES_NB Loto5Boules]. row_bad_date (second_format i) = None)"
proof -
  show "ints_at row_bad_date (boule_keys Loto5Boules) = Inr [1, 2, 3, 4, 5]"
    "ints_at row_bad_date (chance_keys Loto5Boules) = Inr [6]"
    by code_simp+
  show "row_bad_date (DATE_KEY Loto5Boules) = Some (Some ''unknown'')"
    by (simp add: row_bad_date_def DATE_KEY_def)
  show "Loto5Boules = Loto5Boules \<longrightarrow>
     (\<forall>i \<in> set [1 .. BOULES_NB Loto5Boules]. row_bad_date (second_format i) = None)"
    by (simp only: range_Loto5Boules)
      (simp add: second_formats row_bad_date_def row_plain_def)
qed

lemma iter_row_plain:
  "iter_rows strptime_ymd Loto5Boules [row_plain] None =
     ([], Inr [\<lparr>grid = [1, 2, 3, 4, 5], chance = [6],
                 date = Some \<lparr>year = 2020, month = 1, day = 1\<rparr>\<rparr>])"
  by code_simp

theorem row_level_errors_witness:
  "iter_rows strptime_ymd Loto5Boules [row_bad_date, row_plain] None =
     ([Warning ''time data does not match format''],
      Inr [\<lparr>grid = [1, 2, 3, 4, 5], chance = [6],
            date = Some \<lparr>year = 2020, month = 1, day = 1\<rparr>\<rparr>]) \<and>
   iter_rows strptime_ymd Loto5Boules [row_second_bad_date, row_plain] None =
     ([Warning ''time data does not match format''],
      Inr [\<lparr>grid = [11, 12, 13, 14, 15], chance = [6], date = None\<rparr>,
           \<lparr>grid = [1, 2, 3, 4, 5], chance = [6],
            date = Some \<lparr>year = 2020, month = 1, day = 1\<rparr>\<rparr>]) \<and>
   (\<exists>e evs. read_loto_file strptime_ymd ''.csv''
      (Opened \<lparr>fieldnames = Inr (Some header_5_second),
         rows = [row_second, row_second_bad_date_empty_cell], rows_error = None\<rparr>) =
      (evs @ [Printed e], Inr [])) \<and>
   extract_line strptime_ymd Loto5Boules row_bad_number = ([], Inl ValueError) \<and>
   (\<exists>evs. read_loto_file strptime_ymd ''.csv''
      (Opened \<lparr>fieldnames = Inr (Some header_5), rows = [row_plain, row_bad_number],
         rows_error = None\<rparr>) = (evs @ [Printed ValueError], Inr []))"
proof -
  let ?W = "map (\<lambda>fmt. Warning (projl (strptime_ymd ''unknown'' fmt)))
    (find_date_format ''unknown'')"
  let ?R = "iter_rows strptime_ymd Loto5Boules [row_plain] None"
  let ?S = "\<lparr>grid = map (\<lambda>i. projr (int_cell (the (row_second_bad_date (second_format i)))))
      (filter (\<lambda>i. row_second_bad_date (second_format i) \<noteq> None)
         [1 .. BOULES_NB Loto5Boules]),
    chance = [6], date = None\<rparr>"
  have R: "fst ?R = []"
    "snd ?R = Inr [\<lparr>grid = [1, 2, 3, 4, 5], chance = [6],
                 date = Some \<lparr>year = 2020, month = 1, day = 1\<rparr>\<rparr>]"
    by (simp_all only: iter_row_plain fst_conv snd_conv)

  from row_level_errors
    [where strp = strptime_ymd and cls = Loto5Boules and line = row_bad_date
      and g = "[1, 2, 3, 4, 5]" and c = "[6]" and d = "''unknown''"
      and others = "[row_plain]" and err = None,
      THEN conjunct2]
    row_bad_date_facts unknown_date(3)
  have "iter_rows strptime_ymd Loto5Boules (row_bad_date # [row_plain]) None =
      (?W @ fst ?R, snd ?R)"
    by blast
  note first = this [unfolded unknown_date_warnings R]

  from row_level_errors
    [where strp = strptime_ymd and cls = Loto5Boules and line = row_second_bad_date
      and g = "[1, 2, 3, 4, 5]" and c = "[6]" and d = "''unknown''"
      and others = "[row_plain]" and err = None,
      THEN conjunct2]
    row_second_bad_date_cells(1,2) row_second_bad_date_date(1) unknown_date(3)
    row_second_bad_date_second(1,2)
  have "iter_rows strptime_ymd Loto5Boules (row_second_bad_date # [row_plain]) None =
      (?W @ fst ?R, case snd ?R of Inl e \<Rightarrow> Inl e | Inr rest \<Rightarrow> Inr (?S # rest))"
    by blast
  note second = this [unfolded unknown_date_warnings R row_second_bad_date_second(3)]

  have base: "LotoFormat_extract_line strptime_ymd Loto5Boules row_second_bad_date_empty_cell =
      ([Warning ''time data does not match format''], Inr [])"
    by code_simp
  have ok: "\<forall>l \<in> set [row_second].
      \<exists>ws res. extract_line strptime_ymd Loto5Boules l = (ws, Inr res)"
  proof -
    have "extract_line strptime_ymd Loto5Boules row_second =
      ([], Inr [\<lparr>grid = [1, 2, 3, 4, 5], chance = [6],
                 date = Some \<lparr>year = 2020, month = 1, day = 1\<rparr>\<rparr>,
               \<lparr>grid = [11, 12, 13, 14, 15], chance = [6], date = None\<rparr>])"
      by code_simp
    then show ?thesis by simp
  qed
  let ?reader = "\<lparr>fieldnames = Inr (Some header_5_second),
         rows = [row_second, row_second_bad_date_empty_cell], rows_error = None\<rparr>"
  have reader: "fieldnames ?reader = Inr (Some header_5_second)"
    "rows ?reader = [row_second] @ row_second_bad_date_empty_cell # []"
    by simp_all
  have third: "\<exists>e evs. read_loto_file strptime_ymd ''.csv'' (Opened ?reader) =
      (evs @ [Printed e], Inr [])"
  proof -
    from row_level_errors
      [where strp = strptime_ymd and line' = row_second_bad_date_empty_cell
        and ws = "[Warning ''time data does not match format'']" and res = "[]",
      THEN conjunct2]
      base row_second_bad_date_empty_cell_bad
    obtain e where e: "extract_line strptime_ymd Loto5Boules row_second_bad_date_empty_cell =
        ([Warning ''time data does not match format''], Inl e)"
      by blast
    from row_level_errors
      [where strp = strptime_ymd and cls = Loto5Boules
        and line' = row_second_bad_date_empty_cell
        and ws = "[Warning ''time data does not match format'']" and e = e
        and reader = ?reader and header = header_5_second
        and pre = "[row_second]" and post = "[]",
      THEN conjunct2]
      e reader header_5_second_format ok
    have "\<exists>evs. read_loto_file strptime_ymd ''.csv'' (Opened ?reader) =
        (evs @ [Printed e], Inr [])"
      by blast
    then show ?thesis by blast
  qed

  have bad: "ints_at row_bad_number (boule_keys Loto5Boules @ chance_keys Loto5Boules) =
      Inl ValueError"
    by code_simp
  let ?reader2 = "\<lparr>fieldnames = Inr (Some header_5), rows = [row_plain, row_bad_number],
         rows_error = None\<rparr>"
  have reader2: "fieldnames ?reader2 = Inr (Some header_5)"
    "rows ?reader2 = [row_plain] @ row_bad_number # []"
    by simp_all
  have ok2: "\<forall>l \<in> set [row_plain].
      \<exists>ws res. extract_line strptime_ymd Loto5Boules l = (ws, Inr res)"
    using row_plain_extracts by simp
  from row_level_errors
    [where strp = strptime_ymd and cls = Loto5Boules and line' = row_bad_number
      and e = ValueError,
      THEN conjunct2]
    bad
  have fourth: "extract_line strptime_ymd Loto5Boules row_bad_number = ([], Inl ValueError)"
    by blast
  from row_level_errors
    [where strp = strptime_ymd and cls = Loto5Boules and line' = row_bad_number
      and ws = "[]" and e = ValueError and reader = ?reader2 and header = header_5
      and pre = "[row_plain]" and post = "[]",
      THEN conjunct2]
    fourth reader2 header_5_format ok2
  have fifth: "\<exists>evs. read_loto_file strptime_ymd ''.csv'' (Opened ?reader2) =
      (evs @ [Printed ValueError], Inr [])"
    by blast
  from first second third fourth fifth show ?thesis
    by simp
qed

text \<open>
  The claim as first stated has a row with a value that is not numeric dropped and the
  file read on. A file with one good row yields its result; the same file with a second
  row whose \<^verbatim>\<open>boule_3\<close> is \<^verbatim>\<open>x\<close> yields nothing, and the error is printed.
\<close>

theorem row_level_errors_counterexample:
  "read_loto_file strptime_ymd ''.csv''
     (Opened \<lparr>fieldnames = Inr (Some header_5), rows = [row_plain], rows_error = None\<rparr>) =
     ([], Inr [\<lparr>grid = [1, 2, 3, 4, 5], chance = [6],
                 date = Some \<lparr>year = 2020, month = 1, day = 1\<rparr>\<rparr>]) \<and>
   read_loto_file strptime_ymd ''.csv''
     (Opened \<lparr>fieldnames = Inr (Some header_5), rows = [row_plain, row_bad_number],
        rows_error = None\<rparr>) =
     ([Printed ValueError], Inr [])"
  by code_simp

text \<open>
  Claim C5, as the code has it. Once the file is open and its suffix is supported,
  \<^verbatim>\<open>read_loto_file\<close> never raises: an exception raised while the header is read, the
  format chosen or the rows extracted (a line that cannot be decoded, an empty file, a
  row that fails) is caught, printed, and the file yields the empty list; a header that
  no format claims (as with a wrong delimiter) is reported by a warning and yields the
  empty list. An exception of \<^verbatim>\<open>open\<close> (a missing file) and the \<^verbatim>\<open>KeyError\<close> of an
  unsupported suffix are raised before the \<^verbatim>\<open>try\<close> and leave \<^verbatim>\<open>read_loto_file\<close>.
\<close>

theorem read_loto_file_file_errors:
  "(\<exists>evs res. read_loto_file strp ''.csv'' (Opened reader) = (evs, Inr res)) \<and>
   (fieldnames reader = Inl e \<longrightarrow>
      read_loto_file strp ''.csv'' (Opened reader) = ([Printed e], Inr [])) \<and>
   (fieldnames reader = Inr None \<longrightarrow>
      read_loto_file strp ''.csv'' (Opened reader) = ([Printed TypeError], Inr [])) \<and>
   (fieldnames reader = Inr (Some header) \<and> (\<forall>cls. \<not> is_one cls (Header header)) \<longrightarrow>
      read_loto_file strp ''.csv'' (Opened reader) = ([WarningNoFormat header], Inr [])) \<and>
   (fieldnames reader = Inr (Some header) \<and> first_format LOTO_FORMATS header = Some cls \<and>
    iter_rows strp cls (rows reader) (rows_error reader) = (evs, Inl e) \<longrightarrow>
      read_loto_file strp ''.csv'' (Opened reader) = (evs @ [Printed e], Inr [])) \<and>
   (fieldnames reader = Inr (Some header) \<and> first_format LOTO_FORMATS header = Some cls \<and>
    rows_error reader = Some e \<and>
    (\<forall>l \<in> set (rows reader). \<exists>ws res. extract_line strp cls l = (ws, Inr res)) \<longrightarrow>
      (\<exists>evs. read_loto_file strp ''.csv'' (Opened reader) = (evs @ [Printed e], Inr []))) \<and>
   read_loto_file strp suffix (OpenFails e) = ([], Inl e) \<and>
   (SUPPORTED_FORMATS suffix = None \<longrightarrow>
      read_loto_file strp suffix (Opened reader) = ([], Inl KeyError))"
proof (intro conjI impI)
  show "\<exists>evs res. read_loto_file strp ''.csv'' (Opened reader) = (evs, Inr res)"
    by (cases "read_body strp reader") (auto simp: read_loto_file_Opened split: sum.splits)
next
  assume "fieldnames reader = Inl e"
  then show "read_loto_file strp ''.csv'' (Opened reader) = ([Printed e], Inr [])"
    by (simp add: read_loto_file_Opened read_body_def)
next
  assume "fieldnames reader = Inr None"
  then show "read_loto_file strp ''.csv'' (Opened reader) = ([Printed TypeError], Inr [])"
    by (simp add: read_loto_file_Opened read_body_def)
next
  assume "fieldnames reader = Inr (Some header) \<and> (\<forall>cls. \<not> is_one cls (Header header))"
  then have "fieldnames reader = Inr (Some header)" "first_format LOTO_FORMATS header = None"
    by (simp_all add: first_format_None)
  then show "read_loto_file strp ''.csv'' (Opened reader) = ([WarningNoFormat header], Inr [])"
    by (simp add: read_loto_file_Opened read_body_def)
next
  assume "fieldnames reader = Inr (Some header) \<and> first_format LOTO_FORMATS header = Some cls \<and>
    iter_rows strp cls (rows reader) (rows_error reader) = (evs, Inl e)"
  then show "read_loto_file strp ''.csv'' (Opened reader) = (evs @ [Printed e], Inr [])"
    by (intro read_loto_file_rows_fail) blast+
next
  assume h: "fieldnames reader = Inr (Some header) \<and> first_format LOTO_FORMATS header = Some cls \<and>
    rows_error reader = Some e \<and>
    (\<forall>l \<in> set (rows reader). \<exists>ws res. extract_line strp cls l = (ws, Inr res))"
  then obtain evs where "iter_rows strp cls (rows reader) (rows_error reader) = (evs, Inl e)"
    using iter_rows_reader_error [of "rows reader" strp cls e] by auto
  with h have "read_loto_file strp ''.csv'' (Opened reader) = (evs @ [Printed e], Inr [])"
    by (intro read_loto_file_rows_fail) blast+
  then show "\<exists>evs. read_loto_file strp ''.csv'' (Opened reader) = (evs @ [Printed e], Inr [])"
    by blast
next
  show "read_loto_file strp suffix (OpenFails e) = ([], Inl e)"
    by (simp add: read_loto_file_def)
next
  assume "SUPPORTED_FORMATS suffix = None"
  then show "read_loto_file strp suffix (Opened reader) = ([], Inl KeyError)"
    by (simp add: read_loto_file_def)
qed


theorem read_loto_file_file_errors_witness:
  "read_loto_file strptime_ymd ''.csv''
     (Opened \<lparr>fieldnames = Inl UnicodeDecodeError, rows = [], rows_error = None\<rparr>) =
     ([Printed UnicodeDecodeError], Inr []) \<and>
   read_loto_file strptime_ymd ''.csv''
     (Opened \<lparr>fieldnames = Inr (Some [''boule_1,boule_2,boule_3,boule_4,boule_5'']),
        rows = [], rows_error = None\<rparr>) =
     ([WarningNoFormat [''boule_1,boule_2,boule_3,boule_4,boule_5'']], Inr []) \<and>
   (\<exists>evs. read_loto_file strptime_ymd ''.csv''
     (Opened \<lparr>fieldnames = Inr (Some header_5), rows = [row_plain],
        rows_error = Some UnicodeDecodeError\<rparr>) =
     (evs @ [Printed UnicodeDecodeError], Inr [])) \<and>
   read_loto_file strptime_ymd ''.txt''
     (Opened \<lparr>fieldnames = Inr (Some header_5), rows = [row_plain], rows_error = None\<rparr>) =
     ([], Inl KeyError)"
proof -
  have none: "\<forall>cls. \<not> is_one cls (Header [''boule_1,boule_2,boule_3,boule_4,boule_5''])"
  proof -
    have "first_format LOTO_FORMATS [''boule_1,boule_2,boule_3,boule_4,boule_5''] = None"
      by code_simp
    then show ?thesis using first_format_None by blast
  qed
  have rows_ok: "\<forall>l \<in> set [row_plain].
      \<exists>ws res. extract_line strptime_ymd Loto5Boules l = (ws, Inr res)"
    using row_plain_extracts by simp
  have sfx: "SUPPORTED_FORMATS ''.txt'' = None"
    by (simp add: SUPPORTED_FORMATS_def)
  have 1: "read_loto_file strptime_ymd ''.csv''
     (Opened \<lparr>fieldnames = Inl UnicodeDecodeError, rows = [], rows_error = None\<rparr>) =
     ([Printed UnicodeDecodeError], Inr [])"
    using read_loto_file_file_errors
      [where strp = strptime_ymd and e = UnicodeDecodeError
        and reader = "\<lparr>fieldnames = Inl UnicodeDecodeError, rows = [], rows_error = None\<rparr>"]
    by simp
  have 2: "read_loto_file strptime_ymd ''.csv''
     (Opened \<lparr>fieldnames = Inr (Some [''boule_1,boule_2,boule_3,boule_4,boule_5'']),
        rows = [], rows_error = None\<rparr>) =
     ([WarningNoFormat [''boule_1,boule_2,boule_3,boule_4,boule_5'']], Inr [])"
    using read_loto_file_file_errors
      [where strp = strptime_ymd
        and header = "[''boule_1,boule_2,boule_3,boule_4,boule_5'']"
        and reader = "\<lparr>fieldnames = Inr (Some [''boule_1,boule_2,boule_3,boule_4,boule_5'']),
          rows = [], rows_error = None\<rparr>"] none
    by (simp only: csv_reader.simps) blast
  have 3: "\<exists>evs. read_loto_file strptime_ymd ''.csv''
     (Opened \<lparr>fieldnames = Inr (Some header_5), rows = [row_plain],
        rows_error = Some UnicodeDecodeError\<rparr>) =
     (evs @ [Printed UnicodeDecodeError], Inr [])"
    using read_loto_file_file_errors
      [where strp = strptime_ymd and header = header_5 and cls = Loto5Boules
        and e = UnicodeDecodeError
        and reader = "\<lparr>fieldnames = Inr (Some header_5), rows = [row_plain],
          rows_error = Some UnicodeDecodeError\<rparr>"] header_5_format rows_ok
    by simp
  have 4: "read_loto_file strptime_ymd ''.txt''
     (Opened \<lparr>fieldnames = Inr (Some header_5), rows = [row_plain], rows_error = None\<rparr>) =
     ([], Inl KeyError)"
    using read_loto_file_file_errors
      [where strp = strptime_ymd and suffix = "''.txt''"
        and reader = "\<lparr>fieldnames = Inr (Some header_5), rows = [row_plain],
          rows_error = None\<rparr>"] sfx
    by simp
  from 1 2 3 4 show ?thesis by blast
qed

text \<open>
  The claim as first stated has a missing file caught inside \<^verbatim>\<open>read_loto_file\<close>.
  \<^verbatim>\<open>open\<close> stands outside the \<^verbatim>\<open>try\<close>: its exception is raised to the caller.
\<close>

theorem read_loto_file_file_errors_counterexample:
  "read_loto_file strptime_ymd ''.csv'' (OpenFails FileNotFoundError) =
     ([], Inl FileNotFoundError)"
  by (simp add: read_loto_file_def)


section \<open>Generation of a draw\<close>

lemma take_drop_nth:
  "d + k \<le> length xs \<Longrightarrow> take k (drop d xs) = map (\<lambda>j. xs ! j) [d ..< d + k]"
  by (rule nth_equalityI) simp_all

lemma sample_contract_props:
  assumes "sample_contract smp" "k \<le> length population" "distinct population"
  shows "length (fst (smp s population k)) = k \<and> distinct (fst (smp s population k)) \<and>
    set (fst (smp s population k)) \<subseteq> set population"
proof -
  from assms(1,2) obtain js where js: "length js = k" "distinct js"
      "\<forall>j \<in> set js. j < length population"
      "fst (smp s population k) = map (\<lambda>j. population ! j) js"
    unfolding sample_contract_def by blast
  have "inj_on (\<lambda>j. population ! j) (set js)"
    using js(3) assms(3) by (auto simp: inj_on_def nth_eq_iff_index_eq)
  with js show ?thesis
    by (auto simp: distinct_map)
qed

lemma random_sample_upto:
  assumes "sample_contract smp" "0 \<le> k" "k \<le> m"
  shows "\<exists>xs s'. random_sample smp s [1 .. m] k = Inr (xs, s') \<and> int (length xs) = k \<and>
    distinct xs \<and> (\<forall>i \<in> set xs. 1 \<le> i \<and> i \<le> m)"
proof -
  have len: "nat k \<le> length [1 .. m]"
    using assms(2,3) by simp
  have "length (fst (smp s [1 .. m] (nat k))) = nat k \<and>
      distinct (fst (smp s [1 .. m] (nat k))) \<and>
      set (fst (smp s [1 .. m] (nat k))) \<subseteq> set [1 .. m]"
    using assms(1) len by (rule sample_contract_props) simp
  moreover have "random_sample smp s [1 .. m] k = Inr (smp s [1 .. m] (nat k))"
    using assms(2,3) by (simp add: random_sample_def)
  ultimately show ?thesis
    using assms(2) by (cases "smp s [1 .. m] (nat k)") auto
qed

lemma window_sampler_contract: "sample_contract window_sampler"
  unfolding sample_contract_def
proof (intro allI impI)
  fix s :: nat and population :: "int list" and k
  assume k: "k \<le> length population"
  define d where "d = (if s = 0 then 0 else length population - k)"
  have dk: "d + k \<le> length population"
    using k by (simp add: d_def)
  have "take k (drop d population) = map (\<lambda>j. population ! j) [d ..< d + k]"
    using dk by (rule take_drop_nth)
  then have "fst (window_sampler s population k) = map (\<lambda>j. population ! j) [d ..< d + k]"
    by (simp add: window_sampler_def d_def)
  moreover have "length [d ..< d + k] = k" "distinct [d ..< d + k]"
    "\<forall>j \<in> set [d ..< d + k]. j < length population"
    using dk by auto
  ultimately show "\<exists>js. length js = k \<and> distinct js \<and> (\<forall>j \<in> set js. j < length population) \<and>
      fst (window_sampler s population k) = map (\<lambda>j. population ! j) js"
    by blast
qed

text \<open>
  Claim C8. Whatever the random source does, as long as \<^verbatim>\<open>random.sample\<close> keeps its
  documented contract, \<^verbatim>\<open>generate()\<close> returns (it does not raise) for each format a
  result whose grid holds exactly \<^verbatim>\<open>BOULES_NB\<close> pairwise distinct integers of
  \<^verbatim>\<open>[1, MAX]\<close>, whose chance holds exactly \<^verbatim>\<open>CHANCE_NB\<close> pairwise distinct integers
  of \<^verbatim>\<open>[1, MAX_CHANCE]\<close>, and whose date is \<^verbatim>\<open>None\<close>.
\<close>

theorem generate_valid:
  assumes "sample_contract smp"
  shows "\<exists>g s'. generate smp cls s = Inr (g, s') \<and>
    int (length (grid g)) = BOULES_NB cls \<and> distinct (grid g) \<and>
    (\<forall>i \<in> set (grid g). 1 \<le> i \<and> i \<le> MAX_BOULE cls) \<and>
    int (length (chance g)) = CHANCE_NB cls \<and> distinct (chance g) \<and>
    (\<forall>i \<in> set (chance g). 1 \<le> i \<and> i \<le> MAX_CHANCE cls) \<and>
    date g = None"
proof -
  have b: "0 \<le> BOULES_NB cls" "BOULES_NB cls \<le> MAX_BOULE cls"
    and c: "0 \<le> CHANCE_NB cls" "CHANCE_NB cls \<le> MAX_CHANCE cls"
    by (cases cls; simp)+
  from random_sample_upto [OF assms b] obtain g s1 where
    g: "random_sample smp s [1 .. MAX_BOULE cls] (BOULES_NB cls) = Inr (g, s1)"
      "int (length g) = BOULES_NB cls" "distinct g"
      "\<forall>i \<in> set g. 1 \<le> i \<and> i \<le> MAX_BOULE cls"
    by blast
  from random_sample_upto [OF assms c] obtain ch s2 where
    ch: "random_sample smp s1 [1 .. MAX_CHANCE cls] (CHANCE_NB cls) = Inr (ch, s2)"
      "int (length ch) = CHANCE_NB cls" "distinct ch"
      "\<forall>i \<in> set ch. 1 \<le> i \<and> i \<le> MAX_CHANCE cls"
    by blast
  have "generate smp cls s = Inr (\<lparr>grid = g, chance = ch, date = None\<rparr>, s2)"
    by (simp add: generate_def g(1) ch(1))
  with g ch show ?thesis
    by simp
qed

theorem generate_valid_witness:
  "\<exists>g s'. generate window_sampler EuroMillion 0 = Inr (g, s') \<and>
    int (length (grid g)) = BOULES_NB EuroMillion \<and> distinct (grid g) \<and>
    (\<forall>i \<in> set (grid g). 1 \<le> i \<and> i \<le> MAX_BOULE EuroMillion) \<and>
    int (length (chance g)) = CHANCE_NB EuroMillion \<and> distinct (chance g) \<and>
    (\<forall>i \<in> set (chance g). 1 \<le> i \<and> i \<le> MAX_CHANCE EuroMillion) \<and>
    date g = None"
  using window_sampler_contract by (rule generate_valid)

lemma contains_iff: "contains gen results \<longleftrightarrow> (\<exists>h \<in> set results. loto_eq gen h)"
  using loto_eq_sym by (auto simp: contains_def list_ex_iff)

lemma generate_tirage_not_contains:
  assumes "generate_tirage smp results loto_cls s = Some y"
  shows "case y of Inl e \<Rightarrow> True | Inr (g, s') \<Rightarrow> \<not> contains g results"
proof (rule generate_tirage.raw_induct
    [where P = "\<lambda>smp results loto_cls s y.
       (case y of Inl e \<Rightarrow> True | Inr (g, s') \<Rightarrow> \<not> contains g results)", OF _ assms])
  fix f smp results loto_cls s y
  assume IH: "\<And>smp results loto_cls s y. f smp results loto_cls s = Some y \<Longrightarrow>
      (case y of Inl e \<Rightarrow> True | Inr (g, s') \<Rightarrow> \<not> contains g results)"
    and body: "(case generate smp loto_cls s of
        Inl e \<Rightarrow> Some (Inl e)
      | Inr (gen, s') \<Rightarrow>
          if contains gen results then f smp results loto_cls s'
          else Some (Inr (gen, s'))) = Some y"
  show "case y of Inl e \<Rightarrow> True | Inr (g, s') \<Rightarrow> \<not> contains g results"
  proof (cases "generate smp loto_cls s")
    case (Inl e)
    with body show ?thesis by auto
  next
    case (Inr p)
    obtain gen s1 where p: "p = (gen, s1)" by (cases p)
    show ?thesis
    proof (cases "contains gen results")
      case True
      with body Inr p have "f smp results loto_cls s1 = Some y" by simp
      then show ?thesis by (rule IH)
    next
      case False
      with body Inr p show ?thesis by auto
    qed
  qed
qed

lemma generate_tirage_returns_unseen:
  assumes "generate smp loto_cls s = Inr (g, s')" "\<not> contains g results"
  shows "generate_tirage smp results loto_cls s = Some (Inr (g, s'))"
  using assms by (subst generate_tirage.simps) simp

text \<open>
  Claim C7. Whenever \<^verbatim>\<open>generate_tirage(history, schema)\<close> returns a result \<^verbatim>\<open>g\<close>,
  no entry \<^verbatim>\<open>h\<close> of the history satisfies \<^verbatim>\<open>g == h\<close>.
\<close>

theorem generate_tirage_unseen:
  assumes "generate_tirage smp results loto_cls s = Some (Inr (g, s'))"
  shows "\<forall>h \<in> set results. LotoResult_eq g (IsLotoResult h) = Inr False"
  using generate_tirage_not_contains [OF assms]
  by (simp add: contains_iff LotoResult_eq_loto_eq)

theorem generate_tirage_unseen_witness:
  "generate_tirage window_sampler
     [\<lparr>grid = [1, 2, 3, 4, 5], chance = [1], date = None\<rparr>] Loto5Boules 0 =
     Some (Inr (\<lparr>grid = [45, 46, 47, 48, 49], chance = [10], date = None\<rparr>, 4)) \<and>
   LotoResult_eq \<lparr>grid = [45, 46, 47, 48, 49], chance = [10], date = None\<rparr>
     (IsLotoResult \<lparr>grid = [1, 2, 3, 4, 5], chance = [1], date = None\<rparr>) = Inr False"
proof -
  have run: "generate_tirage window_sampler
     [\<lparr>grid = [1, 2, 3, 4, 5], chance = [1], date = None\<rparr>] Loto5Boules 0 =
     Some (Inr (\<lparr>grid = [45, 46, 47, 48, 49], chance = [10], date = None\<rparr>, 4))"
    by code_simp
  from generate_tirage_unseen [OF run] run show ?thesis
    by simp
qed


end
